theory Spec2Isabelle
  imports Complex_Main
begin

section \<open>Data model\<close>

text \<open>
  Floating-point numbers of the source are modelled by the reals, Python integers by
  \<open>int\<close>, and the rows of a pandas table by a list of records.
\<close>

type_synonym point = "real \<times> real"

text \<open>A row of the table built by \<open>generate_customer_profiles_table\<close> (customers.py).\<close>

record customer_profile =
  CUSTOMER_ID :: int
  x_customer_id :: real
  y_customer_id :: real
  mean_amount :: real
  std_amount :: real
  mean_nb_tx_per_day :: real
  compromised :: int

section \<open>Terminals within a radius (radius.py)\<close>

text \<open>
  \<open>x_y_terminals\<close> is an array of shape (n, 2); it is a list of pairs here. The numpy
  operations are applied to the whole array, one after the other, as in the source.
\<close>

definition np_square_diff :: "point \<Rightarrow> point list \<Rightarrow> point list" where
  \<comment> \<open>\<open>np.square(x_y_customer - x_y_terminals)\<close>, the point broadcast over the rows\<close>
  "np_square_diff c ts = map (\<lambda>t. ((fst c - fst t)\<^sup>2, (snd c - snd t)\<^sup>2)) ts"

definition np_sum_axis1 :: "point list \<Rightarrow> real list" where
  \<comment> \<open>\<open>np.sum(a, axis=1)\<close>\<close>
  "np_sum_axis1 a = map (\<lambda>row. fst row + snd row) a"

definition np_sqrt :: "real list \<Rightarrow> real list" where
  "np_sqrt a = map sqrt a"

fun np_where_from :: "nat \<Rightarrow> bool list \<Rightarrow> nat list" where
  "np_where_from i [] = []"
| "np_where_from i (b # bs) = (if b then i # np_where_from (Suc i) bs else np_where_from (Suc i) bs)"

definition np_where :: "bool list \<Rightarrow> nat list" where
  \<comment> \<open>\<open>np.where(cond)[0]\<close>: the positions at which the condition holds, ascending\<close>
  "np_where cond = np_where_from 0 cond"

definition get_list_terminals_within_radius ::
    "'a customer_profile_scheme \<Rightarrow> point list \<Rightarrow> real \<Rightarrow> nat list" where
  "get_list_terminals_within_radius customer_profile x_y_terminals r =
     (let x_y_customer = (x_customer_id customer_profile, y_customer_id customer_profile);
          squared_diff_x_y = np_square_diff x_y_customer x_y_terminals;
          dist_x_y = np_sqrt (np_sum_axis1 squared_diff_x_y);
          available_terminals = np_where (map (\<lambda>d. d < r) dist_x_y)
      in available_terminals)"

definition get_list_terminals_within_radius_from_point ::
    "real \<Rightarrow> real \<Rightarrow> point list \<Rightarrow> real \<Rightarrow> nat list \<times> real list" where
  "get_list_terminals_within_radius_from_point x_centre y_centre x_y_terminals r =
     (let x_y_customer = (x_centre, y_centre);
          squared_diff_x_y = np_square_diff x_y_customer x_y_terminals;
          weights = np_sum_axis1 squared_diff_x_y;
          dist_x_y = np_sqrt weights;
          available_terminals = np_where (map (\<lambda>d. d < r) dist_x_y)
      in (available_terminals, map (\<lambda>i. exp (- (weights ! i))) available_terminals))"

text \<open>The notions the specification uses to describe the selection.\<close>

definition squared_distance :: "point \<Rightarrow> point \<Rightarrow> real" where
  "squared_distance p q = (fst p - fst q)\<^sup>2 + (snd p - snd q)\<^sup>2"

definition euclidean_distance :: "point \<Rightarrow> point \<Rightarrow> real" where
  "euclidean_distance p q = sqrt (squared_distance p q)"

definition within_radius :: "point \<Rightarrow> point list \<Rightarrow> real \<Rightarrow> nat list" where
  "within_radius p ts r = filter (\<lambda>i. euclidean_distance p (ts ! i) < r) [0..<length ts]"

section \<open>Random generators\<close>

text \<open>
  The source draws from two process-wide generators: numpy's (\<open>np.random\<close>) and the one of
  Python's \<open>random\<close> module. Each is modelled by its state, threaded through every function
  that draws: a draw takes the state and returns the value with the next state, and seeding
  replaces the state by one that depends on the seed alone. The generators themselves are
  parameters of the model, so every theorem holds for any generator.
\<close>

record 's np_random =
  np_seed :: "int \<Rightarrow> 's"
  np_uniform :: "real \<Rightarrow> real \<Rightarrow> 's \<Rightarrow> real \<times> 's"
  np_normal :: "real \<Rightarrow> real \<Rightarrow> 's \<Rightarrow> real \<times> 's"
  np_poisson :: "real \<Rightarrow> 's \<Rightarrow> nat \<times> 's"

record 'p py_random =
  random_seed :: "int \<Rightarrow> 'p"
  random_choice :: "nat list \<Rightarrow> 'p \<Rightarrow> nat \<times> 'p"

datatype py_error = ValueError | AttributeError | FileNotFoundError | ParserError | UnpicklingError

text \<open>What numpy promises of \<open>np.random.uniform(low, high)\<close>: a value in \<open>[low, high)\<close>.\<close>

definition uniform_in_range :: "'s np_random \<Rightarrow> bool" where
  "uniform_in_range N \<longleftrightarrow>
     (\<forall>low high s. low < high \<longrightarrow>
        low \<le> fst (np_uniform N low high s) \<and> fst (np_uniform N low high s) < high)"

section \<open>Numbers\<close>

definition py_int :: "real \<Rightarrow> int" where
  \<comment> \<open>\<open>int(x)\<close> of a float: truncation toward zero\<close>
  "py_int x = (if 0 \<le> x then \<lfloor>x\<rfloor> else \<lceil>x\<rceil>)"

definition np_rint :: "real \<Rightarrow> int" where
  \<comment> \<open>rounding to the nearest integer, a tie to the even one\<close>
  "np_rint x =
     (let f = \<lfloor>x\<rfloor>; d = x - of_int f
      in if d < 1 / 2 then f else if 1 / 2 < d then f + 1 else if even f then f else f + 1)"

definition np_round :: "real \<Rightarrow> nat \<Rightarrow> real" where
  \<comment> \<open>\<open>np.round(x, decimals)\<close>\<close>
  "np_round x decimals = of_int (np_rint (x * 10 ^ decimals)) / 10 ^ decimals"

section \<open>Customer profiles (customers.py)\<close>

text \<open>
  The loop of \<open>generate_customer_profiles_table\<close>: four uniform draws for each customer, the
  row appended at position \<open>len(customer_profiles_table)\<close>.
\<close>

fun customer_rows ::
    "'s np_random \<Rightarrow> int list \<Rightarrow> customer_profile list \<Rightarrow> 's \<Rightarrow> customer_profile list \<times> 's" where
  "customer_rows N [] customer_profiles_table s = (customer_profiles_table, s)"
| "customer_rows N (customer_id # ids) customer_profiles_table s =
     (let (x, s1) = np_uniform N 0 100 s;
          (y, s2) = np_uniform N 0 100 s1;
          (mean, s3) = np_uniform N 5 100 s2;
          std = mean / 2;
          (nb, s4) = np_uniform N 0 4 s3
      in customer_rows N ids
           (customer_profiles_table @
              [\<lparr>CUSTOMER_ID = customer_id, x_customer_id = x, y_customer_id = y,
                mean_amount = mean, std_amount = std, mean_nb_tx_per_day = nb,
                compromised = 0\<rparr>])
           s4)"

text \<open>
  \<open>np.random.seed\<close> raises ValueError for a seed outside \<open>0 .. 2\<^sup>3\<^sup>2 - 1\<close>. The state
  the generator had before the call is an argument, and the new state a result.
\<close>

definition generate_customer_profiles_table ::
    "'s np_random \<Rightarrow> int \<Rightarrow> int \<Rightarrow> 's \<Rightarrow> py_error + customer_profile list \<times> 's" where
  "generate_customer_profiles_table N n_customers random_state s0 =
     (if 0 \<le> random_state \<and> random_state < 2 ^ 32
      then Inr (customer_rows N (map int [0..<nat n_customers]) [] (np_seed N random_state))
      else Inl ValueError)"

section \<open>The fraud walk (generator.py)\<close>

definition compute_first_time :: "'s np_random \<Rightarrow> 's \<Rightarrow> int \<times> 's" where
  "compute_first_time N s =
     (let (v, s') = np_normal N (86400 / 8) 20000 s;
          time_tx = \<bar>py_int v\<bar>
      in (time_tx, s'))"



text \<open>
  The \<open>while time_tx > 86400\<close> loop of \<open>compute_time\<close>. It has no bound on the number of
  draws, so it is a partial function: \<open>None\<close> is the loop that never exits.
\<close>

partial_function (option) resample_time ::
    "'s np_random \<Rightarrow> int \<Rightarrow> int \<Rightarrow> 's \<Rightarrow> (int \<times> 's) option" where
  "resample_time N previous_time time_tx s =
     (if time_tx > 86400
      then (let (v, s') = np_normal N 0 30000 s
            in resample_time N previous_time (py_int (of_int previous_time + \<bar>v\<bar>)) s')
      else Some (time_tx, s))"

definition compute_time ::
    "'s np_random \<Rightarrow> int \<times> int \<Rightarrow> int \<Rightarrow> 's \<Rightarrow> (int \<times> 's) option" where
  "compute_time N previous_fraud day s =
     (if snd previous_fraud = day
      then (let (v, s') = np_normal N 0 30000 s
            in resample_time N (fst previous_fraud)
                 (py_int (of_int (fst previous_fraud) + \<bar>v\<bar>)) s')
      else Some (compute_first_time N s))"

section \<open>The Generator object (generator.py)\<close>

record terminal_profile =
  TERMINAL_ID :: int
  x_terminal_id :: real
  y_terminal_id :: real

text \<open>
  A customer row after \<open>_initialize\<close> has added the column \<open>available_terminals\<close>.
\<close>

record customer_row = customer_profile +
  available_terminals :: "nat list"

text \<open>
  An entry of the list \<open>customer_transactions\<close>: time inside the day, day, customer,
  terminal, amount, fraud label.
\<close>

type_synonym tx_row = "int \<times> int \<times> int \<times> int \<times> real \<times> int"

text \<open>
  A row of the table that \<open>_generate_transactions_table\<close> returns. The columns
  \<open>CUSTOMER_ID\<close> and \<open>TERMINAL_ID\<close> carry the prefix \<open>TX_\<close> here, since the profile
  tables have columns of the same names. A date is the number of seconds since the epoch.
\<close>

record transaction =
  TX_DATETIME :: int
  TX_CUSTOMER_ID :: int
  TX_TERMINAL_ID :: int
  TX_AMOUNT :: real
  TX_TIME_SECONDS :: int
  TX_FRAUD :: int

text \<open>
  The attributes of a \<open>Generator\<close>. \<open>transactions_df\<close> exists only once \<open>generate\<close> or
  \<open>load\<close> has run.
\<close>

record generator =
  n_customers :: int
  n_terminals :: int
  radius :: real
  nb_days :: int
  start_date :: int
  random_state :: int
  max_days_from_compromission :: int
  compromission_probability :: real
  terminal_profiles_table :: "terminal_profile list"
  customer_profiles_table :: "customer_row list"
  x_y_terminals :: "point list"
  fraudsters_mean :: real
  fraudsters_var :: real
  transactions_df :: "transaction list option"

text \<open>
  The functions of \<open>transactions.py\<close> that \<open>_generate_transactions_table\<close> calls. That
  module is not among the sources, so the simulation takes its three functions as a
  parameter. Each of them may draw from both generators, and may fail to return
  (\<open>None\<close>: it raises, or it loops for ever, as \<open>compute_time\<close> can).
\<close>

record ('p, 's) transactions_module =
  generate_fraudulent_transactions ::
    "tx_row list \<Rightarrow> nat \<Rightarrow> customer_row \<Rightarrow> int \<Rightarrow> real \<Rightarrow> real \<Rightarrow> terminal_profile list
       \<Rightarrow> point list \<Rightarrow> 'p \<times> 's \<Rightarrow> (tx_row list \<times> ('p \<times> 's)) option"
  generate_genuine_transactions ::
    "tx_row list \<Rightarrow> nat \<Rightarrow> customer_row \<Rightarrow> int \<Rightarrow> 'p \<times> 's \<Rightarrow> (tx_row list \<times> ('p \<times> 's)) option"
  compromise_user ::
    "customer_row \<Rightarrow> real \<Rightarrow> 'p \<times> 's \<Rightarrow> (int \<times> ('p \<times> 's)) option"

text \<open>
  The local state of \<open>_generate_transactions_table\<close>: its two variables, the customer row
  (whose entry \<open>compromised\<close> the loop assigns) and the states of the two generators.
\<close>

record ('p, 's) simulation =
  days_from_compromission :: nat
  customer_transactions :: "tx_row list"
  profile :: customer_row
  rng :: "'p \<times> 's"

definition fraud_branch :: "generator \<Rightarrow> ('p, 's) simulation \<Rightarrow> bool" where
  \<comment> \<open>the condition of the \<open>if\<close> in the loop over the days\<close>
  "fraud_branch self st \<longleftrightarrow>
     compromised (profile st) = 1 \<and> length (customer_transactions st) > 0
     \<and> int (days_from_compromission st) < max_days_from_compromission self"

definition fraudulent_day ::
    "generator \<Rightarrow> ('p, 's) transactions_module \<Rightarrow> ('p, 's) simulation \<Rightarrow> nat \<Rightarrow> int \<Rightarrow> 'p \<times> 's
       \<Rightarrow> ('p, 's) simulation option" where
  "fraudulent_day self T st nb_tx day w =
     (case generate_fraudulent_transactions T (customer_transactions st) nb_tx (profile st) day
             (fraudsters_mean self) (fraudsters_var self) (terminal_profiles_table self)
             (x_y_terminals self) w of
        None \<Rightarrow> None
      | Some (txs, w') \<Rightarrow>
          Some (st\<lparr>customer_transactions := txs,
                   days_from_compromission := days_from_compromission st + 1,
                   rng := w'\<rparr>))"

definition genuine_day ::
    "generator \<Rightarrow> ('p, 's) transactions_module \<Rightarrow> ('p, 's) simulation \<Rightarrow> nat \<Rightarrow> int \<Rightarrow> 'p \<times> 's
       \<Rightarrow> ('p, 's) simulation option" where
  "genuine_day self T st nb_tx day w =
     (case generate_genuine_transactions T (customer_transactions st) nb_tx (profile st) day w of
        None \<Rightarrow> None
      | Some (txs, w') \<Rightarrow>
          (case compromise_user T (profile st) (compromission_probability self) w' of
             None \<Rightarrow> None
           | Some (c, w'') \<Rightarrow>
               Some (st\<lparr>customer_transactions := txs,
                        profile := (profile st)\<lparr>compromised := c\<rparr>,
                        rng := w''\<rparr>)))"

text \<open>
  One pass of the loop body. \<open>np.random.poisson\<close> raises ValueError for a negative rate.
\<close>

definition simulate_day ::
    "generator \<Rightarrow> 's np_random \<Rightarrow> ('p, 's) transactions_module \<Rightarrow> ('p, 's) simulation \<Rightarrow> int
       \<Rightarrow> ('p, 's) simulation option" where
  "simulate_day self N T st day =
     (if mean_nb_tx_per_day (profile st) < 0 then None
      else (let (k, s') = np_poisson N (mean_nb_tx_per_day (profile st)) (snd (rng st));
                nb_tx = k + 1;
                w = (fst (rng st), s')
            in if fraud_branch self st then fraudulent_day self T st nb_tx day w
               else genuine_day self T st nb_tx day w))"

fun simulate_days ::
    "generator \<Rightarrow> 's np_random \<Rightarrow> ('p, 's) transactions_module \<Rightarrow> ('p, 's) simulation \<Rightarrow> int list
       \<Rightarrow> ('p, 's) simulation option" where
  "simulate_days self N T st [] = Some st"
| "simulate_days self N T st (day # days) =
     (case simulate_day self N T st day of
        None \<Rightarrow> None
      | Some st' \<Rightarrow> simulate_days self N T st' days)"

definition transactions_frame :: "generator \<Rightarrow> tx_row list \<Rightarrow> transaction list" where
  \<comment> \<open>the data frame built from the list, with the two derived columns\<close>
  "transactions_frame self rows =
     map (\<lambda>(time_in_day, day, customer, terminal, amount, fraud).
            \<lparr>TX_DATETIME = start_date self + (time_in_day + day * 86400),
             TX_CUSTOMER_ID = customer, TX_TERMINAL_ID = terminal, TX_AMOUNT = amount,
             TX_TIME_SECONDS = time_in_day + day * 86400, TX_FRAUD = fraud\<rparr>) rows"

definition initial_simulation ::
    "'p py_random \<Rightarrow> customer_row \<Rightarrow> 'p \<times> 's \<Rightarrow> ('p, 's) simulation" where
  \<comment> \<open>the state when the loop starts: \<open>random.seed\<close> has replaced the state of Python's
      generator, numpy's is the one the caller left\<close>
  "initial_simulation R customer_profile w =
     \<lparr>days_from_compromission = 0, customer_transactions = [], profile = customer_profile,
      rng = (random_seed R (CUSTOMER_ID customer_profile), snd w)\<rparr>"

definition generate_transactions_table ::
    "generator \<Rightarrow> 'p py_random \<Rightarrow> 's np_random \<Rightarrow> ('p, 's) transactions_module \<Rightarrow> customer_row
       \<Rightarrow> 'p \<times> 's \<Rightarrow> (transaction list \<times> ('p \<times> 's)) option" where
  "generate_transactions_table self R N T customer_profile w =
     (case simulate_days self N T (initial_simulation R customer_profile w)
             (map int [0..<nat (nb_days self)]) of
        None \<Rightarrow> None
      | Some st \<Rightarrow> Some (transactions_frame self (customer_transactions st), rng st))"

section \<open>Export and load (generator.py)\<close>

text \<open>
  The joined table pairs a transaction with the terminal of the same \<open>TERMINAL_ID\<close>. A file
  holds such a table, written as CSV or pickled; the file system maps names to files.
\<close>

type_synonym full_row = "transaction \<times> terminal_profile"

datatype stored_file = CsvFile "full_row list" | PickleFile "full_row list"

type_synonym file_system = "string \<rightharpoonup> stored_file"

definition pd_merge :: "transaction list \<Rightarrow> terminal_profile list \<Rightarrow> full_row list" where
  \<comment> \<open>\<open>transactions_df.merge(terminal_profiles_table, 'inner')\<close>, on the common column\<close>
  "pd_merge df terminals =
     concat (map (\<lambda>tx. map (\<lambda>t. (tx, t))
                          (filter (\<lambda>t. TERMINAL_ID t = TX_TERMINAL_ID tx) terminals)) df)"

definition drop_duplicates :: "'a list \<Rightarrow> 'a list" where
  \<comment> \<open>the first occurrence of every row is kept\<close>
  "drop_duplicates rows = rev (remdups (rev rows))"

definition endswith :: "string \<Rightarrow> string \<Rightarrow> bool" where
  "endswith str suffix \<longleftrightarrow>
     length suffix \<le> length str \<and> drop (length str - length suffix) str = suffix"

definition export ::
    "generator \<Rightarrow> file_system \<Rightarrow> string \<Rightarrow> string \<Rightarrow> bool \<Rightarrow> py_error + file_system" where
  "export self fs filename format include_frauds =
     (case transactions_df self of
        None \<Rightarrow> Inl AttributeError
      | Some df \<Rightarrow>
          (let full_transactions_table = pd_merge df (terminal_profiles_table self);
               filename = filename @ ''.'' @ format
           in if format = ''csv'' then Inr (fs(filename \<mapsto> CsvFile full_transactions_table))
              else if format = ''pkl''
              then Inr (fs(filename \<mapsto> PickleFile full_transactions_table))
              else Inr fs))"

definition read_table :: "file_system \<Rightarrow> string \<Rightarrow> py_error + full_row list" where
  \<comment> \<open>the \<open>if\<close> chain at the head of \<open>load\<close>\<close>
  "read_table fs filename =
     (if endswith filename ''.csv''
      then (case fs filename of
              None \<Rightarrow> Inl FileNotFoundError
            | Some (CsvFile t) \<Rightarrow> Inr t
            | Some (PickleFile t) \<Rightarrow> Inl ParserError)
      else if endswith filename ''.pkl''
      then (case fs filename of
              None \<Rightarrow> Inl FileNotFoundError
            | Some (PickleFile t) \<Rightarrow> Inr t
            | Some (CsvFile t) \<Rightarrow> Inl UnpicklingError)
      else Inl ValueError)"

text \<open>
  \<open>load\<close> returns the exception it raised, if any, and the object as the call leaves it.
\<close>

definition load :: "generator \<Rightarrow> file_system \<Rightarrow> string \<Rightarrow> py_error option \<times> generator" where
  "load self fs filename =
     (case read_table fs filename of
        Inl e \<Rightarrow> (Some e, self)
      | Inr full_transactions_table \<Rightarrow>
          (None,
           self\<lparr>transactions_df := Some (drop_duplicates (map fst full_transactions_table)),
                terminal_profiles_table := drop_duplicates (map snd full_transactions_table)\<rparr>))"

section \<open>The functions of transactions.py, from the specification\<close>

text \<open>
  Modelled from the spec: \<open>generate_genuine_transactions\<close>, whose module
  \<open>transactions.py\<close> is not among the sources. By the description of the simulator, each
  of the \<open>nb_tx\<close> transactions of a genuine day has an independent time-of-day draw, a
  terminal sampled uniformly from the customer's available terminals (none: the
  transaction is skipped), and the amount \<open>|Normal(mean_amount, std_amount)|\<close> rounded to 2
  decimals; its label is fraud exactly when the customer is compromised. The spec names
  neither the distribution of the time of day, which is the parameter \<open>time_of_day\<close>, nor the
  generators: the terminal is drawn from Python's generator here, the numbers from numpy's.
\<close>

fun spec_generate_genuine_transactions ::
    "'s np_random \<Rightarrow> 'p py_random \<Rightarrow> ('s \<Rightarrow> int \<times> 's) \<Rightarrow> tx_row list \<Rightarrow> nat \<Rightarrow> customer_row
       \<Rightarrow> int \<Rightarrow> 'p \<times> 's \<Rightarrow> (tx_row list \<times> ('p \<times> 's)) option" where
  "spec_generate_genuine_transactions N R time_of_day txs 0 customer_profile day w = Some (txs, w)"
| "spec_generate_genuine_transactions N R time_of_day txs (Suc n) customer_profile day w =
     (let (time_tx, s1) = time_of_day (snd w)
      in if available_terminals customer_profile = []
         then spec_generate_genuine_transactions N R time_of_day txs n customer_profile day
                (fst w, s1)
         else if std_amount customer_profile < 0 then None
         else (let (terminal_id, p1) = random_choice R (available_terminals customer_profile) (fst w);
                   (a, s2) = np_normal N (mean_amount customer_profile)
                               (std_amount customer_profile) s1;
                   amount = np_round \<bar>a\<bar> 2;
                   label = (if compromised customer_profile = 1 then 1 else 0)
               in spec_generate_genuine_transactions N R time_of_day
                    (txs @ [(time_tx, day, CUSTOMER_ID customer_profile, int terminal_id,
                             amount, label)])
                    n customer_profile day (p1, s2)))"

text \<open>
  Modelled from the spec: \<open>compromise_user\<close>, of the same missing module. By the state
  machine of the simulator, a genuine customer becomes compromised with the fixed
  probability, and a compromised customer stays compromised: the state has no outgoing
  transition. The roll is a uniform draw on [0, 1) compared with the probability.
\<close>

definition spec_compromise_user ::
    "'s np_random \<Rightarrow> customer_row \<Rightarrow> real \<Rightarrow> 'p \<times> 's \<Rightarrow> (int \<times> ('p \<times> 's)) option" where
  "spec_compromise_user N customer_profile probability w =
     (if compromised customer_profile = 1 then Some (1, w)
      else (let (u, s') = np_uniform N 0 1 (snd w)
            in Some (if u < probability then 1 else 0, (fst w, s'))))"

text \<open>
  The module with these two functions. The spec does not determine
  \<open>generate_fraudulent_transactions\<close> enough to model it; it stays a parameter.
\<close>

definition spec_transactions_module ::
    "'s np_random \<Rightarrow> 'p py_random \<Rightarrow> ('s \<Rightarrow> int \<times> 's)
       \<Rightarrow> (tx_row list \<Rightarrow> nat \<Rightarrow> customer_row \<Rightarrow> int \<Rightarrow> real \<Rightarrow> real \<Rightarrow> terminal_profile list
            \<Rightarrow> point list \<Rightarrow> 'p \<times> 's \<Rightarrow> (tx_row list \<times> ('p \<times> 's)) option)
       \<Rightarrow> ('p, 's) transactions_module" where
  "spec_transactions_module N R time_of_day fraud_walk =
     \<lparr>generate_fraudulent_transactions = fraud_walk,
      generate_genuine_transactions =
        (\<lambda>txs nb_tx customer_profile day w.
           spec_generate_genuine_transactions N R time_of_day txs nb_tx customer_profile day w),
      compromise_user = spec_compromise_user N\<rparr>"

section \<open>A generator for the examples\<close>

text \<open>
  A generator whose state is the list of the values it will return, used where a theorem
  is applied to a concrete run.
\<close>

definition tape_random :: "real list np_random" where
  "tape_random =
     \<lparr>np_seed = (\<lambda>n. [of_int n, 20, 50, 2, 30, 40, 60, 3]),
      np_uniform = (\<lambda>low high s. case s of [] \<Rightarrow> (low, [])
                      | v # vs \<Rightarrow> (if low \<le> v \<and> v < high then v else low, vs)),
      np_normal = (\<lambda>loc scale s. case s of [] \<Rightarrow> (loc, []) | v # vs \<Rightarrow> (v, vs)),
      np_poisson = (\<lambda>lam s. case s of [] \<Rightarrow> (0, []) | v # vs \<Rightarrow> (nat \<lfloor>v\<rfloor>, vs))\<rparr>"

section \<open>Vocabulary of the statements\<close>

text \<open>
  The same-day branch of \<open>compute_time\<close> draws again and again; \<open>next_state\<close> is the
  generator after one such draw and \<open>candidate_time\<close> the time the draw proposes.
\<close>

definition next_state :: "'s np_random \<Rightarrow> 's \<Rightarrow> 's" where
  "next_state N s = snd (np_normal N 0 30000 s)"

definition candidate_time :: "'s np_random \<Rightarrow> int \<Rightarrow> 's \<Rightarrow> int" where
  "candidate_time N previous_time s = py_int (of_int previous_time + \<bar>fst (np_normal N 0 30000 s)\<bar>)"

definition first_accepted :: "'s np_random \<Rightarrow> int \<Rightarrow> 's \<Rightarrow> nat \<Rightarrow> bool" where
  "first_accepted N previous_time s k \<longleftrightarrow>
     candidate_time N previous_time ((next_state N ^^ k) s) \<le> 86400
     \<and> (\<forall>j < k. 86400 < candidate_time N previous_time ((next_state N ^^ j) s))"

text \<open>
  The state of numpy's generator after the four draws of one customer, and the row that the
  four draws from a state make.
\<close>

definition state_after_row :: "'s np_random \<Rightarrow> 's \<Rightarrow> 's" where
  "state_after_row N s =
     snd (np_uniform N 0 4 (snd (np_uniform N 5 100 (snd (np_uniform N 0 100
       (snd (np_uniform N 0 100 s)))))))"

definition drawn_row :: "'s np_random \<Rightarrow> int \<Rightarrow> 's \<Rightarrow> customer_profile" where
  "drawn_row N customer_id s =
     (let (x, s1) = np_uniform N 0 100 s;
          (y, s2) = np_uniform N 0 100 s1;
          (m, s3) = np_uniform N 5 100 s2;
          (nb, s4) = np_uniform N 0 4 s3
      in \<lparr>CUSTOMER_ID = customer_id, x_customer_id = x, y_customer_id = y,
          mean_amount = m, std_amount = m / 2, mean_nb_tx_per_day = nb, compromised = 0\<rparr>)"

definition row_in_range :: "customer_profile \<Rightarrow> bool" where
  "row_in_range row \<longleftrightarrow>
     0 \<le> x_customer_id row \<and> x_customer_id row \<le> 100
     \<and> 0 \<le> y_customer_id row \<and> y_customer_id row \<le> 100
     \<and> 5 \<le> mean_amount row \<and> mean_amount row < 100
     \<and> std_amount row = mean_amount row / 2
     \<and> 0 \<le> mean_nb_tx_per_day row \<and> mean_nb_tx_per_day row < 4
     \<and> compromised row = 0"

text \<open>
  The state of the simulation of a customer when day \<open>d\<close> starts, that is when day
  \<open>d - 1\<close> has ended (\<open>None\<close>: the simulation did not get there); whether the fraudulent
  branch of the loop is taken on day \<open>d\<close>; and the number of days of the run on which it is.
\<close>

definition state_before_day ::
    "generator \<Rightarrow> 'p py_random \<Rightarrow> 's np_random \<Rightarrow> ('p, 's) transactions_module \<Rightarrow> customer_row
       \<Rightarrow> 'p \<times> 's \<Rightarrow> nat \<Rightarrow> ('p, 's) simulation option" where
  "state_before_day self R N T customer_profile w d =
     simulate_days self N T (initial_simulation R customer_profile w) (map int [0..<d])"

definition fraud_branch_fires ::
    "generator \<Rightarrow> 'p py_random \<Rightarrow> 's np_random \<Rightarrow> ('p, 's) transactions_module \<Rightarrow> customer_row
       \<Rightarrow> 'p \<times> 's \<Rightarrow> nat \<Rightarrow> bool" where
  "fraud_branch_fires self R N T customer_profile w d \<longleftrightarrow>
     (case state_before_day self R N T customer_profile w d of
        None \<Rightarrow> False
      | Some st \<Rightarrow> fraud_branch self st)"

definition nb_fraud_days ::
    "generator \<Rightarrow> 'p py_random \<Rightarrow> 's np_random \<Rightarrow> ('p, 's) transactions_module \<Rightarrow> customer_row
       \<Rightarrow> 'p \<times> 's \<Rightarrow> nat \<Rightarrow> nat" where
  "nb_fraud_days self R N T customer_profile w n =
     length (filter (fraud_branch_fires self R N T customer_profile w) [0..<n])"

definition tx_fraud :: "tx_row \<Rightarrow> int" where
  "tx_fraud row = snd (snd (snd (snd (snd row))))"

definition tx_amount :: "tx_row \<Rightarrow> real" where
  "tx_amount row = fst (snd (snd (snd (snd row))))"

text \<open>
  The objects of the examples. The fraud walk of \<open>example_module\<close> is a stand-in: it adds
  \<open>nb_tx\<close> rows labelled fraud and draws nothing.
\<close>

definition counter_random :: "nat py_random" where
  "counter_random =
     \<lparr>random_seed = (\<lambda>a. nat \<bar>a\<bar>),
      random_choice = (\<lambda>xs p. (xs ! (p mod length xs), Suc p))\<rparr>"

definition tape_time_of_day :: "real list \<Rightarrow> int \<times> real list" where
  "tape_time_of_day s = (case s of [] \<Rightarrow> (0, []) | v # vs \<Rightarrow> (py_int v, vs))"

definition example_module :: "(nat, real list) transactions_module" where
  "example_module =
     spec_transactions_module tape_random counter_random tape_time_of_day
       (\<lambda>txs nb_tx customer_profile day fmean fvar terminals xy w.
          Some (txs @ replicate nb_tx (0, day, CUSTOMER_ID customer_profile, 0, 1, 1), w))"

definition example_generator :: generator where
  "example_generator =
     \<lparr>n_customers = 2, n_terminals = 1, radius = 200, nb_days = 1, start_date = 1522540800,
      random_state = 2, max_days_from_compromission = 3, compromission_probability = 3 / 100,
      terminal_profiles_table = [\<lparr>TERMINAL_ID = 0, x_terminal_id = 50, y_terminal_id = 50\<rparr>],
      customer_profiles_table =
        [\<lparr>CUSTOMER_ID = 0, x_customer_id = 10, y_customer_id = 20, mean_amount = 50,
          std_amount = 25, mean_nb_tx_per_day = 2, compromised = 0, available_terminals = [0]\<rparr>,
         \<lparr>CUSTOMER_ID = 1, x_customer_id = 30, y_customer_id = 40, mean_amount = 60,
          std_amount = 30, mean_nb_tx_per_day = 3, compromised = 0, available_terminals = [0]\<rparr>],
      x_y_terminals = [(50, 50)], fraudsters_mean = 45, fraudsters_var = 30,
      transactions_df = None\<rparr>"

definition customer_0 :: customer_row where
  "customer_0 = customer_profiles_table example_generator ! 0"

definition customer_1 :: customer_row where
  "customer_1 = customer_profiles_table example_generator ! 1"

definition example_generator_3 :: generator where
  "example_generator_3 = example_generator\<lparr>nb_days := 3, max_days_from_compromission := 1\<rparr>"

definition example_tape :: "real list" where
  "example_tape = [0, 30000, 12.5, 0.01, 0, 0, 40000, 20]"

definition example_world :: "nat \<times> real list" where
  "example_world = (0, [0, 30000, 12.5, 0.5, 1, 40000, 20, 50000, 30, 0.5])"

section \<open>Properties of the terminal selection\<close>

lemma np_where_from_filter:
  "np_where_from i bs = map (\<lambda>k. i + k) (filter (\<lambda>k. bs ! k) [0..<length bs])"
proof (induction bs arbitrary: i)
  case Nil
  show ?case by simp
next
  case (Cons b bs)
  have shift: "[0..<length (b # bs)] = 0 # map Suc [0..<length bs]"
    by (simp add: upt_conv_Cons map_Suc_upt del: upt_Suc)
  show ?case
    unfolding shift
    by (simp add: Cons.IH filter_map comp_def)
qed

lemma np_where_filter: "np_where bs = filter (\<lambda>k. bs ! k) [0..<length bs]"
  by (simp add: np_where_def np_where_from_filter)

lemma dist_pipeline_nth:
  assumes "i < length ts"
  shows "np_sum_axis1 (np_square_diff p ts) ! i = squared_distance p (ts ! i)"
    and "np_sqrt (np_sum_axis1 (np_square_diff p ts)) ! i = euclidean_distance p (ts ! i)"
  using assms
  by (simp_all add: np_sum_axis1_def np_square_diff_def np_sqrt_def
      squared_distance_def euclidean_distance_def)

lemma dist_pipeline_length:
  "length (np_sqrt (np_sum_axis1 (np_square_diff p ts))) = length ts"
  by (simp add: np_sum_axis1_def np_square_diff_def np_sqrt_def)

lemma np_where_dist:
  "np_where (map (\<lambda>d. d < r) (np_sqrt (np_sum_axis1 (np_square_diff p ts)))) = within_radius p ts r"
proof -
  have len: "length (map (\<lambda>d. d < r) (np_sqrt (np_sum_axis1 (np_square_diff p ts)))) = length ts"
    by (simp add: dist_pipeline_length)
  show ?thesis
    unfolding np_where_filter len within_radius_def
    by (rule filter_cong) (simp_all add: dist_pipeline_nth dist_pipeline_length)
qed

lemma within_radius_set:
  "set (within_radius p ts r) = {i. i < length ts \<and> euclidean_distance p (ts ! i) < r}"
  by (auto simp: within_radius_def)

lemma within_radius_sorted: "sorted_wrt (<) (within_radius p ts r)"
  by (simp add: within_radius_def sorted_wrt_filter)

text \<open>
  C6. Both functions select exactly the indices of the terminals whose Euclidean distance
  to the point is strictly below \<open>r\<close>, in the order of the input array; the weighted variant
  returns beside them the weight \<open>exp (- squared distance)\<close> of each selected terminal; and
  when no terminal is within \<open>r\<close> both selections (and the weights) are empty.
\<close>

theorem terminals_within_radius_exact:
  fixes customer_profile :: "'a customer_profile_scheme"
  defines "c \<equiv> (x_customer_id customer_profile, y_customer_id customer_profile)"
  shows "get_list_terminals_within_radius customer_profile ts r = within_radius c ts r
    \<and> set (get_list_terminals_within_radius customer_profile ts r)
        = {i. i < length ts \<and> euclidean_distance c (ts ! i) < r}
    \<and> sorted_wrt (<) (get_list_terminals_within_radius customer_profile ts r)
    \<and> get_list_terminals_within_radius_from_point x y ts r
        = (within_radius (x, y) ts r,
           map (\<lambda>i. exp (- squared_distance (x, y) (ts ! i))) (within_radius (x, y) ts r))
    \<and> ((\<forall>i < length ts. \<not> euclidean_distance c (ts ! i) < r)
          \<longrightarrow> get_list_terminals_within_radius customer_profile ts r = [])
    \<and> ((\<forall>i < length ts. \<not> euclidean_distance (x, y) (ts ! i) < r)
          \<longrightarrow> get_list_terminals_within_radius_from_point x y ts r = ([], []))"
proof -
  have sel: "get_list_terminals_within_radius customer_profile ts r = within_radius c ts r"
    by (simp add: get_list_terminals_within_radius_def c_def np_where_dist Let_def)
  have wsel: "fst (get_list_terminals_within_radius_from_point x y ts r) = within_radius (x, y) ts r"
    by (simp add: get_list_terminals_within_radius_from_point_def np_where_dist Let_def)
  have wts: "snd (get_list_terminals_within_radius_from_point x y ts r)
      = map (\<lambda>i. exp (- squared_distance (x, y) (ts ! i))) (within_radius (x, y) ts r)"
    by (simp add: get_list_terminals_within_radius_from_point_def np_where_dist Let_def
        within_radius_def dist_pipeline_nth)
  have pair: "get_list_terminals_within_radius_from_point x y ts r
      = (within_radius (x, y) ts r,
         map (\<lambda>i. exp (- squared_distance (x, y) (ts ! i))) (within_radius (x, y) ts r))"
    using wsel wts by (metis prod.collapse)
  have empty: "(\<forall>i < length ts. \<not> euclidean_distance q (ts ! i) < r) \<longrightarrow> within_radius q ts r = []" for q
    by (auto simp: within_radius_def filter_empty_conv)
  show ?thesis
    using sel pair empty within_radius_set within_radius_sorted by simp
qed

theorem terminals_within_radius_exact_witness:
  "get_list_terminals_within_radius
      \<lparr>CUSTOMER_ID = 0, x_customer_id = 0, y_customer_id = 0, mean_amount = 10,
       std_amount = 5, mean_nb_tx_per_day = 1, compromised = 0\<rparr>
      [(3, 4), (0, 1), (6, 8)] 5 = [1]
   \<and> get_list_terminals_within_radius_from_point 0 0 [(3, 4), (0, 1), (6, 8)] 5 = ([1], [exp (- 1)])
   \<and> get_list_terminals_within_radius_from_point 0 0 [(3, 4), (6, 8)] 5 = ([], [])"
proof -
  have d1: "euclidean_distance (0, 0) (3, 4) = 5"
    by (simp add: euclidean_distance_def squared_distance_def real_sqrt_unique)
  have d2: "euclidean_distance (0, 0) (0, 1) = 1"
    by (simp add: euclidean_distance_def squared_distance_def)
  have d3: "euclidean_distance (0, 0) (6, 8) = 10"
    by (simp add: euclidean_distance_def squared_distance_def real_sqrt_unique)
  have w1: "within_radius (0, 0) [(3, 4), (0, 1), (6, 8)] 5 = [1]"
    by (simp add: within_radius_def upt_conv_Cons d1 d2 d3)
  have w2: "within_radius (0, 0) [(3, 4), (6, 8)] 5 = []"
    by (simp add: within_radius_def upt_conv_Cons d1 d3)
  show ?thesis
    using terminals_within_radius_exact
      [of "\<lparr>CUSTOMER_ID = 0, x_customer_id = 0, y_customer_id = 0, mean_amount = 10,
            std_amount = 5, mean_nb_tx_per_day = 1, compromised = 0\<rparr>"
          "[(3, 4), (0, 1), (6, 8)]" 5 0 0]
      terminals_within_radius_exact
      [of "\<lparr>CUSTOMER_ID = 0, x_customer_id = 0, y_customer_id = 0, mean_amount = 10,
            std_amount = 5, mean_nb_tx_per_day = 1, compromised = 0\<rparr>"
          "[(3, 4), (6, 8)]" 5 0 0]
    by (simp add: w1 w2 squared_distance_def)
qed
section \<open>Properties of the numeric helpers\<close>

lemma py_int_ge: "of_int k \<le> x \<Longrightarrow> k \<le> py_int x"
proof -
  assume "of_int k \<le> x"
  then have "k \<le> \<lfloor>x\<rfloor>" by (simp add: le_floor_iff)
  moreover have "\<lfloor>x\<rfloor> \<le> \<lceil>x\<rceil>" by (rule floor_le_ceiling)
  ultimately have "k \<le> \<lfloor>x\<rfloor> \<and> k \<le> \<lceil>x\<rceil>" by linarith
  then show ?thesis by (simp add: py_int_def)
qed

lemma py_int_abs: "\<bar>py_int x\<bar> = py_int \<bar>x\<bar>"
proof (cases "0 \<le> x")
  case True
  then show ?thesis by (simp add: py_int_def)
next
  case False
  then have "\<lceil>x\<rceil> \<le> 0" by (simp add: ceiling_le_iff)
  with False show ?thesis by (simp add: py_int_def ceiling_def)
qed

lemma np_rint_of_int: "np_rint (of_int k) = k"
  by (simp add: np_rint_def)

lemma np_round_idem: "np_round (np_round x d) d = np_round x d"
  by (simp add: np_round_def np_rint_of_int)

section \<open>Time\<close>

lemma candidate_time_ge: "previous_time \<le> candidate_time N previous_time s"
  unfolding candidate_time_def by (rule py_int_ge) simp

lemma resample_time_unfold:
  "resample_time N p t s =
     (if 86400 < t then resample_time N p (candidate_time N p s) (next_state N s) else Some (t, s))"
  by (subst resample_time.simps) (simp add: candidate_time_def next_state_def split: prod.splits)

lemma compute_time_same_day:
  "compute_time N (p, day) day s = resample_time N p (candidate_time N p s) (next_state N s)"
  by (simp add: compute_time_def candidate_time_def next_state_def split: prod.splits)

lemma resample_time_first_accepted:
  "first_accepted N p s k \<Longrightarrow>
     resample_time N p (candidate_time N p s) (next_state N s)
       = Some (candidate_time N p ((next_state N ^^ k) s), (next_state N ^^ Suc k) s)"
proof (induction k arbitrary: s)
  case 0
  then show ?case
    by (subst resample_time_unfold) (simp add: first_accepted_def)
next
  case (Suc k)
  from Suc.prems have rej: "86400 < candidate_time N p s"
    unfolding first_accepted_def by (metis funpow_0 zero_less_Suc)
  have shift: "(next_state N ^^ j) (next_state N s) = (next_state N ^^ Suc j) s" for j
    by (simp add: funpow_swap1)
  have "first_accepted N p (next_state N s) k"
    using Suc.prems unfolding first_accepted_def shift by auto
  from Suc.IH[OF this] rej show ?case
    by (subst resample_time_unfold) (simp add: shift)
qed

lemma compute_first_time_value:
  "fst (compute_first_time N s) = py_int \<bar>fst (np_normal N (86400 / 8) 20000 s)\<bar>"
  by (simp add: compute_first_time_def py_int_abs split: prod.splits)

lemma resample_time_Some_accepts:
  assumes "resample_time N p t s = Some y"
  shows "\<forall>s0. t = candidate_time N p s0 \<and> s = next_state N s0 \<longrightarrow>
           (\<exists>k. candidate_time N p ((next_state N ^^ k) s0) \<le> 86400)"
proof (rule resample_time.raw_induct
    [where P = "\<lambda>N p t s y. \<forall>s0. t = candidate_time N p s0 \<and> s = next_state N s0 \<longrightarrow>
           (\<exists>k. candidate_time N p ((next_state N ^^ k) s0) \<le> 86400)", OF _ assms])
  fix rec :: "'a np_random \<Rightarrow> int \<Rightarrow> int \<Rightarrow> 'a \<Rightarrow> (int \<times> 'a) option"
  fix N p t s y
  assume IH: "\<And>N p t s y. rec N p t s = Some y \<Longrightarrow>
      \<forall>s0. t = candidate_time N p s0 \<and> s = next_state N s0 \<longrightarrow>
           (\<exists>k. candidate_time N p ((next_state N ^^ k) s0) \<le> 86400)"
  assume body: "(if t > 86400
      then (let (v, s') = np_normal N 0 30000 s
            in rec N p (py_int (of_int p + \<bar>v\<bar>)) s')
      else Some (t, s)) = Some y"
  show "\<forall>s0. t = candidate_time N p s0 \<and> s = next_state N s0 \<longrightarrow>
           (\<exists>k. candidate_time N p ((next_state N ^^ k) s0) \<le> 86400)"
  proof (intro allI impI)
    fix s0
    assume st: "t = candidate_time N p s0 \<and> s = next_state N s0"
    show "\<exists>k. candidate_time N p ((next_state N ^^ k) s0) \<le> 86400"
    proof (cases "t > 86400")
      case True
      with body have r: "rec N p (candidate_time N p s) (next_state N s) = Some y"
        by (simp add: candidate_time_def next_state_def split: prod.splits)
      from IH[OF r] obtain k where "candidate_time N p ((next_state N ^^ k) s) \<le> 86400"
        by blast
      with st have "candidate_time N p ((next_state N ^^ Suc k) s0) \<le> 86400"
        by (simp add: funpow_swap1)
      then show ?thesis by blast
    next
      case False
      with st have "candidate_time N p ((next_state N ^^ 0) s0) \<le> 86400" by simp
      then show ?thesis by blast
    qed
  qed
qed

lemma compute_time_None_iff:
  "compute_time N (p, day) day s = None
     \<longleftrightarrow> (\<forall>k. 86400 < candidate_time N p ((next_state N ^^ k) s))"
proof
  assume none: "compute_time N (p, day) day s = None"
  show "\<forall>k. 86400 < candidate_time N p ((next_state N ^^ k) s)"
  proof (rule ccontr)
    assume "\<not> (\<forall>k. 86400 < candidate_time N p ((next_state N ^^ k) s))"
    then have ex: "\<exists>k. candidate_time N p ((next_state N ^^ k) s) \<le> 86400"
      by (simp add: not_less)
    define k where "k = (LEAST k. candidate_time N p ((next_state N ^^ k) s) \<le> 86400)"
    have acc: "candidate_time N p ((next_state N ^^ k) s) \<le> 86400"
      unfolding k_def using ex by (rule LeastI_ex)
    have "86400 < candidate_time N p ((next_state N ^^ j) s)" if "j < k" for j
      using not_less_Least[of j "\<lambda>k. candidate_time N p ((next_state N ^^ k) s) \<le> 86400"] that
      by (simp add: k_def not_le)
    with acc have "first_accepted N p s k" by (simp add: first_accepted_def)
    from resample_time_first_accepted[OF this] none show False
      by (simp add: compute_time_same_day)
  qed
next
  assume rej: "\<forall>k. 86400 < candidate_time N p ((next_state N ^^ k) s)"
  show "compute_time N (p, day) day s = None"
  proof (cases "compute_time N (p, day) day s")
    case None
    then show ?thesis .
  next
    case (Some y)
    then have "resample_time N p (candidate_time N p s) (next_state N s) = Some y"
      by (simp add: compute_time_same_day)
    from resample_time_Some_accepts[OF this]
    obtain k where "candidate_time N p ((next_state N ^^ k) s) \<le> 86400" by blast
    with rej show ?thesis by (simp add: not_less[symmetric])
  qed
qed

text \<open>
  C8. A same-day call of \<open>compute_time\<close> returns exactly the first of its successive draws
  \<open>int(previous time + |Normal(0, 30000)|)\<close> that does not exceed 86400, every earlier draw
  having been rejected for exceeding it, and leaves the generator after that draw; the
  returned integer lies between the previous fraud's time and 86400. A call for another day
  returns the draw of \<open>compute_first_time\<close>, \<open>|int(Normal(86400/8, 20000))|\<close>, which is
  non-negative and has no upper clamp.
\<close>

theorem compute_time_result:
  "(snd previous_fraud = day \<longrightarrow>
      (compute_time N previous_fraud day s = Some (t, s')
         \<longleftrightarrow> (\<exists>k. first_accepted N (fst previous_fraud) s k
                \<and> t = py_int (of_int (fst previous_fraud)
                              + \<bar>fst (np_normal N 0 30000 ((next_state N ^^ k) s))\<bar>)
                \<and> s' = (next_state N ^^ Suc k) s))
      \<and> (compute_time N previous_fraud day s = Some (t, s') \<longrightarrow>
            fst previous_fraud \<le> t \<and> t \<le> 86400))
   \<and> (snd previous_fraud \<noteq> day \<longrightarrow>
        compute_time N previous_fraud day s = Some (compute_first_time N s)
        \<and> fst (compute_first_time N s) = py_int \<bar>fst (np_normal N (86400 / 8) 20000 s)\<bar>
        \<and> 0 \<le> fst (compute_first_time N s))"
proof (intro conjI impI)
  assume same: "snd previous_fraud = day"
  obtain p where pf: "previous_fraud = (p, day)" using same by (cases previous_fraud) simp
  let ?cand = "\<lambda>k. candidate_time N p ((next_state N ^^ k) s)"
  have returns: "compute_time N (p, day) day s = Some (?cand k, (next_state N ^^ Suc k) s)"
    if "first_accepted N p s k" for k
    using resample_time_first_accepted[OF that] by (simp add: compute_time_same_day)
  have first: "\<exists>k. first_accepted N p s k \<and> t = ?cand k \<and> s' = (next_state N ^^ Suc k) s"
    if ret: "compute_time N (p, day) day s = Some (t, s')"
  proof -
    from ret have "compute_time N (p, day) day s \<noteq> None" by simp
    then have ex: "\<exists>k. ?cand k \<le> 86400"
      by (simp add: compute_time_None_iff not_less)
    define k where "k = (LEAST k. ?cand k \<le> 86400)"
    have acc: "?cand k \<le> 86400"
      unfolding k_def using ex by (rule LeastI_ex)
    have "86400 < ?cand j" if "j < k" for j
      using not_less_Least[of j "\<lambda>k. ?cand k \<le> 86400"] that by (simp add: k_def not_le)
    with acc have fa: "first_accepted N p s k" by (simp add: first_accepted_def)
    from returns[OF fa] ret have "t = ?cand k \<and> s' = (next_state N ^^ Suc k) s" by simp
    with fa show ?thesis by blast
  qed
  show "compute_time N previous_fraud day s = Some (t, s')
         \<longleftrightarrow> (\<exists>k. first_accepted N (fst previous_fraud) s k
                \<and> t = py_int (of_int (fst previous_fraud)
                              + \<bar>fst (np_normal N 0 30000 ((next_state N ^^ k) s))\<bar>)
                \<and> s' = (next_state N ^^ Suc k) s)"
  proof
    assume "compute_time N previous_fraud day s = Some (t, s')"
    then have "compute_time N (p, day) day s = Some (t, s')" by (simp add: pf)
    from first[OF this] obtain k where fa: "first_accepted N p s k"
      and t: "t = ?cand k" and s': "s' = (next_state N ^^ Suc k) s" by blast
    from t have "t = py_int (of_int (fst previous_fraud)
                              + \<bar>fst (np_normal N 0 30000 ((next_state N ^^ k) s))\<bar>)"
      by (simp only: pf fst_conv candidate_time_def)
    moreover from fa have "first_accepted N (fst previous_fraud) s k"
      by (simp only: pf fst_conv)
    ultimately show "\<exists>k. first_accepted N (fst previous_fraud) s k
                \<and> t = py_int (of_int (fst previous_fraud)
                              + \<bar>fst (np_normal N 0 30000 ((next_state N ^^ k) s))\<bar>)
                \<and> s' = (next_state N ^^ Suc k) s"
      using s' by blast
  next
    assume "\<exists>k. first_accepted N (fst previous_fraud) s k
                \<and> t = py_int (of_int (fst previous_fraud)
                              + \<bar>fst (np_normal N 0 30000 ((next_state N ^^ k) s))\<bar>)
                \<and> s' = (next_state N ^^ Suc k) s"
    then obtain k where fa: "first_accepted N (fst previous_fraud) s k"
      and t: "t = py_int (of_int (fst previous_fraud)
                              + \<bar>fst (np_normal N 0 30000 ((next_state N ^^ k) s))\<bar>)"
      and s': "s' = (next_state N ^^ Suc k) s" by blast
    from fa have fa': "first_accepted N p s k" by (simp only: pf fst_conv)
    from t have t': "t = ?cand k" by (simp only: pf fst_conv candidate_time_def)
    from returns[OF fa'] show "compute_time N previous_fraud day s = Some (t, s')"
      by (simp only: pf t' s')
  qed
  show "fst previous_fraud \<le> t" if "compute_time N previous_fraud day s = Some (t, s')"
  proof -
    from first that obtain k where "t = ?cand k" unfolding pf by blast
    then show ?thesis by (simp add: pf candidate_time_ge)
  qed
  show "t \<le> 86400" if "compute_time N previous_fraud day s = Some (t, s')"
  proof -
    from first that obtain k where "first_accepted N p s k" and "t = ?cand k"
      unfolding pf by blast
    then show ?thesis by (simp add: first_accepted_def)
  qed
next
  assume "snd previous_fraud \<noteq> day"
  then show "compute_time N previous_fraud day s = Some (compute_first_time N s)"
    by (simp add: compute_time_def)
next
  show "fst (compute_first_time N s) = py_int \<bar>fst (np_normal N (86400 / 8) 20000 s)\<bar>"
    by (rule compute_first_time_value)
next
  show "0 \<le> fst (compute_first_time N s)"
    by (simp add: compute_first_time_def split: prod.splits)
qed

theorem compute_time_result_witness:
  "first_accepted tape_random 50000 [90000, 20000.5] 1
   \<and> compute_time tape_random (50000, 3) 3 [90000, 20000.5] = Some (70000, [])
   \<and> (50000::int) \<le> 70000 \<and> (70000::int) \<le> 86400
   \<and> compute_time tape_random (50000, 2) 3 [-100000.7] = Some (100000, [])
   \<and> (86400::int) < 100000"
proof -
  have fa: "first_accepted tape_random 50000 [90000, 20000.5] 1"
    by (simp add: first_accepted_def candidate_time_def next_state_def tape_random_def py_int_def)
  then have fa': "first_accepted tape_random (fst (50000::int, 3::int)) [90000, 20000.5] 1"
    by simp
  have t: "(70000::int) = py_int (of_int (fst (50000::int, 3::int))
      + \<bar>fst (np_normal tape_random 0 30000 ((next_state tape_random ^^ 1) [90000, 20000.5]))\<bar>)"
    by (simp add: next_state_def tape_random_def py_int_def)
  have s': "([]::real list) = (next_state tape_random ^^ Suc 1) [90000, 20000.5]"
    by (simp add: next_state_def tape_random_def)
  have ex: "\<exists>k. first_accepted tape_random (fst (50000::int, 3::int)) [90000, 20000.5] k
      \<and> (70000::int) = py_int (of_int (fst (50000::int, 3::int))
            + \<bar>fst (np_normal tape_random 0 30000 ((next_state tape_random ^^ k) [90000, 20000.5]))\<bar>)
      \<and> ([]::real list) = (next_state tape_random ^^ Suc k) [90000, 20000.5]"
    by (rule exI[of _ 1], intro conjI) (rule fa', rule t, rule s')
  have sd: "snd (50000::int, 3::int) = 3" by simp
  note th = compute_time_result [where N = tape_random and previous_fraud = "(50000, 3)"
      and day = 3 and s = "[90000, 20000.5]" and t = 70000 and s' = "[]"]
  from th sd ex have a: "compute_time tape_random (50000, 3) 3 [90000, 20000.5] = Some (70000, [])"
    by blast
  from th sd a have "fst (50000::int, 3::int) \<le> 70000 \<and> (70000::int) \<le> 86400" by blast
  then have bounds: "(50000::int) \<le> 70000 \<and> (70000::int) \<le> 86400" by simp
  have b: "compute_time tape_random (50000, 2) 3 [-100000.7] = Some (100000, [])"
    using compute_time_result [where N = tape_random and previous_fraud = "(50000, 2)" and day = 3
      and s = "[-100000.7]"]
    by (simp add: compute_first_time_def tape_random_def py_int_def)
  from fa a bounds b show ?thesis by simp
qed

text \<open>
  C10. For a same-day call with a previous time of at most 86400 the exit condition of the
  loop can be met, and the call returns a time between the previous time and 86400 as soon
  as a draw meets it; the call never returns exactly when every draw is rejected. When the
  previous time exceeds 86400, no draw can meet the exit condition and the call never
  returns; \<open>compute_first_time\<close> can produce such a time, since it has no clamp.
\<close>

theorem compute_time_termination:
  "(previous_time \<le> 86400 \<longrightarrow>
      (\<exists>v. py_int (of_int previous_time + \<bar>v\<bar>) \<le> 86400)
      \<and> (first_accepted N previous_time s k \<longrightarrow>
           (\<exists>t s'. compute_time N (previous_time, day) day s = Some (t, s')
              \<and> previous_time \<le> t \<and> t \<le> 86400)))
   \<and> (compute_time N (previous_time, day) day s = None
        \<longleftrightarrow> (\<forall>j. 86400 < candidate_time N previous_time ((next_state N ^^ j) s)))
   \<and> (86400 < previous_time \<longrightarrow>
        (\<forall>v. 86400 < py_int (of_int previous_time + \<bar>v\<bar>))
        \<and> compute_time N (previous_time, day) day s = None)
   \<and> (86401 \<le> fst (np_normal N (86400 / 8) 20000 s) \<longrightarrow> 86400 < fst (compute_first_time N s))"
proof (intro conjI impI)
  assume "previous_time \<le> 86400"
  then have "py_int (of_int previous_time + \<bar>0\<bar>) \<le> 86400"
    by (simp add: py_int_def)
  then show "\<exists>v. py_int (of_int previous_time + \<bar>v\<bar>) \<le> 86400" by blast
next
  assume fa: "first_accepted N previous_time s k"
  let ?t = "candidate_time N previous_time ((next_state N ^^ k) s)"
  have "compute_time N (previous_time, day) day s = Some (?t, (next_state N ^^ Suc k) s)"
    using resample_time_first_accepted[OF fa] by (simp add: compute_time_same_day)
  moreover have "previous_time \<le> ?t" by (rule candidate_time_ge)
  moreover have "?t \<le> 86400" using fa by (simp add: first_accepted_def)
  ultimately show "\<exists>t s'. compute_time N (previous_time, day) day s = Some (t, s')
              \<and> previous_time \<le> t \<and> t \<le> 86400" by blast
next
  show "compute_time N (previous_time, day) day s = None
        \<longleftrightarrow> (\<forall>j. 86400 < candidate_time N previous_time ((next_state N ^^ j) s))"
    by (rule compute_time_None_iff)
next
  assume big: "86400 < previous_time"
  show "\<forall>v. 86400 < py_int (of_int previous_time + \<bar>v\<bar>)"
  proof
    fix v :: real
    have "previous_time \<le> py_int (of_int previous_time + \<bar>v\<bar>)" by (rule py_int_ge) simp
    with big show "86400 < py_int (of_int previous_time + \<bar>v\<bar>)" by simp
  qed
next
  assume big: "86400 < previous_time"
  have "86400 < candidate_time N previous_time ((next_state N ^^ j) s)" for j
    using candidate_time_ge[of previous_time N "(next_state N ^^ j) s"] big by simp
  then show "compute_time N (previous_time, day) day s = None"
    by (simp add: compute_time_None_iff)
next
  assume "86401 \<le> fst (np_normal N (86400 / 8) 20000 s)"
  then have "(86401::int) \<le> py_int \<bar>fst (np_normal N (86400 / 8) 20000 s)\<bar>"
    by (intro py_int_ge) simp
  then show "86400 < fst (compute_first_time N s)"
    by (simp add: compute_first_time_value)
qed

theorem compute_time_termination_witness:
  "(\<exists>t s'. compute_time tape_random (50000, 3) 3 [90000, 20000.5] = Some (t, s')
        \<and> 50000 \<le> t \<and> t \<le> 86400)
   \<and> compute_first_time tape_random [90000.2, 7] = (90000, [7])
   \<and> compute_time tape_random (90000, 3) 3 [7] = None"
proof -
  have fa: "first_accepted tape_random 50000 [90000, 20000.5] 1"
    by (simp add: first_accepted_def candidate_time_def next_state_def tape_random_def py_int_def)
  have ft: "compute_first_time tape_random [90000.2, 7] = (90000, [7])"
    by (simp add: compute_first_time_def tape_random_def py_int_def)
  from fa ft
    compute_time_termination [where N = tape_random and previous_time = 50000
      and s = "[90000, 20000.5]" and k = 1 and day = 3]
    compute_time_termination [where N = tape_random and previous_time = 90000
      and s = "[7]" and day = 3]
  show ?thesis by simp
qed

section \<open>Customer profiles\<close>

lemma uniform_in_rangeD:
  assumes "uniform_in_range N" and "low < high" and "np_uniform N low high s = (v, s')"
  shows "low \<le> v \<and> v < high"
proof -
  from assms(1,2) have "low \<le> fst (np_uniform N low high s) \<and> fst (np_uniform N low high s) < high"
    unfolding uniform_in_range_def by blast
  with assms(3) show ?thesis by simp
qed

lemma customer_rows_in_range:
  assumes "uniform_in_range N"
  shows "customer_rows N ids acc s = (T, s') \<Longrightarrow> \<forall>row \<in> set acc. row_in_range row
    \<Longrightarrow> \<forall>row \<in> set T. row_in_range row"
proof (induction ids arbitrary: acc s)
  case Nil
  then show ?case by simp
next
  case (Cons i ids)
  obtain x s1 where x: "np_uniform N 0 100 s = (x, s1)" by (cases "np_uniform N 0 100 s")
  obtain y s2 where y: "np_uniform N 0 100 s1 = (y, s2)" by (cases "np_uniform N 0 100 s1")
  obtain m s3 where m: "np_uniform N 5 100 s2 = (m, s3)" by (cases "np_uniform N 5 100 s2")
  obtain nb s4 where nb: "np_uniform N 0 4 s3 = (nb, s4)" by (cases "np_uniform N 0 4 s3")
  let ?row = "\<lparr>CUSTOMER_ID = i, x_customer_id = x, y_customer_id = y,
                mean_amount = m, std_amount = m / 2, mean_nb_tx_per_day = nb,
                compromised = 0\<rparr>"
  have bx: "0 \<le> x \<and> x < 100"
    by (rule uniform_in_rangeD[OF assms _ x]) simp
  have by': "0 \<le> y \<and> y < 100"
    by (rule uniform_in_rangeD[OF assms _ y]) simp
  have bm: "5 \<le> m \<and> m < 100"
    by (rule uniform_in_rangeD[OF assms _ m]) simp
  have bn: "0 \<le> nb \<and> nb < 4"
    by (rule uniform_in_rangeD[OF assms _ nb]) simp
  have row: "row_in_range ?row"
    using bx by' bm bn by (simp add: row_in_range_def)
  from Cons.prems(1) x y m nb
  have rec: "customer_rows N ids (acc @ [?row]) s4 = (T, s')" by (simp add: Let_def)
  have "\<forall>row \<in> set (acc @ [?row]). row_in_range row"
    using Cons.prems(2) row by simp
  from Cons.IH[OF rec this] show ?case .
qed

lemma customer_rows_step:
  "customer_rows N (i # ids) acc s
     = customer_rows N ids (acc @ [drawn_row N i s]) (state_after_row N s)"
  by (simp add: drawn_row_def state_after_row_def Let_def split: prod.splits)

lemma customer_rows_draws:
  "customer_rows N ids acc s = (T, s')
     \<Longrightarrow> length T = length acc + length ids
         \<and> s' = (state_after_row N ^^ length ids) s
         \<and> (\<forall>j < length acc. T ! j = acc ! j)
         \<and> (\<forall>j < length ids. T ! (length acc + j)
                = drawn_row N (ids ! j) ((state_after_row N ^^ j) s))"
proof (induction ids arbitrary: acc s)
  case Nil
  then show ?case by simp
next
  case (Cons i ids)
  let ?acc = "acc @ [drawn_row N i s]"
  from Cons.prems have rec: "customer_rows N ids ?acc (state_after_row N s) = (T, s')"
    by (simp only: customer_rows_step)
  note IH = Cons.IH[OF rec]
  from IH have len: "length T = length ?acc + length ids" by blast
  from IH have st: "s' = (state_after_row N ^^ length ids) (state_after_row N s)" by blast
  from IH have old: "\<And>j. j < length ?acc \<Longrightarrow> T ! j = ?acc ! j" by blast
  from IH have new: "\<And>j. j < length ids \<Longrightarrow> T ! (length ?acc + j)
      = drawn_row N (ids ! j) ((state_after_row N ^^ j) (state_after_row N s))" by blast
  have "length T = length acc + length (i # ids)" using len by simp
  moreover have "s' = (state_after_row N ^^ length (i # ids)) s"
    using st by (simp add: funpow_swap1)
  moreover have "T ! j = acc ! j" if "j < length acc" for j
    using old[of j] that by (simp add: nth_append)
  moreover have "T ! (length acc + j) = drawn_row N ((i # ids) ! j) ((state_after_row N ^^ j) s)"
    if "j < length (i # ids)" for j
  proof (cases j)
    case 0
    with old[of "length acc"] show ?thesis by simp
  next
    case (Suc j')
    with that have "j' < length ids" by simp
    from new[OF this] Suc show ?thesis by (simp add: funpow_swap1)
  qed
  ultimately show ?case by blast
qed

text \<open>
  C9. The table depends on \<open>n_customers\<close> and \<open>random_state\<close> only, not on the state the
  generator had before the call. When the call returns, the table has \<open>n_customers\<close> rows. The
  row at position \<open>i\<close> has \<open>CUSTOMER_ID = i\<close> and is made of four successive draws from the
  generator as the earlier rows left it: \<open>uniform(0, 100)\<close> for each coordinate,
  \<open>uniform(5, 100)\<close> for \<open>mean_amount\<close>, and \<open>uniform(0, 4)\<close> for \<open>mean_nb_tx_per_day\<close>, with
  \<open>std_amount = mean_amount / 2\<close> and \<open>compromised = 0\<close>. With a generator whose uniform draws
  lie in their interval, the coordinates are in [0, 100], \<open>mean_amount\<close> in [5, 100) and
  \<open>mean_nb_tx_per_day\<close> in [0, 4).
\<close>

theorem generate_customer_profiles_table_rows:
  "generate_customer_profiles_table N n seed s0 = generate_customer_profiles_table N n seed s1
   \<and> (generate_customer_profiles_table N n seed s0 = Inr (table, s') \<longrightarrow>
        length table = nat n
        \<and> s' = (state_after_row N ^^ nat n) (np_seed N seed)
        \<and> (\<forall>i < length table.
              CUSTOMER_ID (table ! i) = int i
              \<and> (let s = (state_after_row N ^^ i) (np_seed N seed);
                      (x, s1) = np_uniform N 0 100 s;
                      (y, s2) = np_uniform N 0 100 s1;
                      (m, s3) = np_uniform N 5 100 s2;
                      (nb, s4) = np_uniform N 0 4 s3
                  in table ! i =
                       \<lparr>CUSTOMER_ID = int i, x_customer_id = x, y_customer_id = y,
                        mean_amount = m, std_amount = m / 2, mean_nb_tx_per_day = nb,
                        compromised = 0\<rparr>))
        \<and> (uniform_in_range N \<longrightarrow> (\<forall>i < length table. row_in_range (table ! i))))"
proof (intro conjI impI)
  show "generate_customer_profiles_table N n seed s0 = generate_customer_profiles_table N n seed s1"
    by (simp add: generate_customer_profiles_table_def)
next
  assume ret: "generate_customer_profiles_table N n seed s0 = Inr (table, s')"
  then have rows: "customer_rows N (map int [0..<nat n]) [] (np_seed N seed) = (table, s')"
    by (simp add: generate_customer_profiles_table_def split: if_splits)
  note d = customer_rows_draws[OF rows]
  from d show len: "length table = nat n" by simp
  from d show "s' = (state_after_row N ^^ nat n) (np_seed N seed)" by simp
  have row: "table ! i = drawn_row N (int i) ((state_after_row N ^^ i) (np_seed N seed))"
    if "i < length table" for i
  proof -
    from that len have i: "i < length (map int [0..<nat n])" by simp
    from d i have "table ! (length ([]::customer_profile list) + i)
        = drawn_row N (map int [0..<nat n] ! i) ((state_after_row N ^^ i) (np_seed N seed))"
      by blast
    with i show ?thesis by simp
  qed
  show "\<forall>i < length table.
              CUSTOMER_ID (table ! i) = int i
              \<and> (let s = (state_after_row N ^^ i) (np_seed N seed);
                      (x, s1) = np_uniform N 0 100 s;
                      (y, s2) = np_uniform N 0 100 s1;
                      (m, s3) = np_uniform N 5 100 s2;
                      (nb, s4) = np_uniform N 0 4 s3
                  in table ! i =
                       \<lparr>CUSTOMER_ID = int i, x_customer_id = x, y_customer_id = y,
                        mean_amount = m, std_amount = m / 2, mean_nb_tx_per_day = nb,
                        compromised = 0\<rparr>)"
  proof (intro allI impI conjI)
    fix i assume i: "i < length table"
    from row[OF i] show "CUSTOMER_ID (table ! i) = int i"
      by (simp add: drawn_row_def Let_def split: prod.splits)
    from row[OF i] show "let s = (state_after_row N ^^ i) (np_seed N seed);
                      (x, s1) = np_uniform N 0 100 s;
                      (y, s2) = np_uniform N 0 100 s1;
                      (m, s3) = np_uniform N 5 100 s2;
                      (nb, s4) = np_uniform N 0 4 s3
                  in table ! i =
                       \<lparr>CUSTOMER_ID = int i, x_customer_id = x, y_customer_id = y,
                        mean_amount = m, std_amount = m / 2, mean_nb_tx_per_day = nb,
                        compromised = 0\<rparr>"
      by (simp add: drawn_row_def Let_def split: prod.splits)
  qed
  assume u: "uniform_in_range N"
  have "\<forall>row \<in> set table. row_in_range row"
    by (rule customer_rows_in_range[OF u rows]) simp
  then show "\<forall>i < length table. row_in_range (table ! i)" by simp
qed

lemma tape_random_uniform: "uniform_in_range tape_random"
  by (auto simp: uniform_in_range_def tape_random_def split: list.splits)

theorem generate_customer_profiles_table_rows_witness:
  "uniform_in_range tape_random
   \<and> generate_customer_profiles_table tape_random 2 7 [1, 2, 3]
       = Inr ([\<lparr>CUSTOMER_ID = 0, x_customer_id = 7, y_customer_id = 20, mean_amount = 50,
                 std_amount = 25, mean_nb_tx_per_day = 2, compromised = 0\<rparr>,
               \<lparr>CUSTOMER_ID = 1, x_customer_id = 30, y_customer_id = 40, mean_amount = 60,
                 std_amount = 30, mean_nb_tx_per_day = 3, compromised = 0\<rparr>], [])
   \<and> generate_customer_profiles_table tape_random 2 7 [1, 2, 3]
       = generate_customer_profiles_table tape_random 2 7 []
   \<and> (state_after_row tape_random ^^ 1) (np_seed tape_random 7) = [30, 40, 60, 3]
   \<and> np_uniform tape_random 5 100 [60, 3] = (60, [3])
   \<and> row_in_range \<lparr>CUSTOMER_ID = 1, x_customer_id = 30, y_customer_id = 40, mean_amount = 60,
                 std_amount = 30, mean_nb_tx_per_day = 3, compromised = 0\<rparr>"
proof -
  let ?r0 = "\<lparr>CUSTOMER_ID = 0, x_customer_id = 7, y_customer_id = 20, mean_amount = 50,
                 std_amount = 25, mean_nb_tx_per_day = 2, compromised = 0\<rparr>"
  let ?r1 = "\<lparr>CUSTOMER_ID = 1, x_customer_id = 30, y_customer_id = 40, mean_amount = 60,
                 std_amount = 30, mean_nb_tx_per_day = 3, compromised = 0\<rparr>"
  have run: "generate_customer_profiles_table tape_random 2 7 [1, 2, 3] = Inr ([?r0, ?r1], [])"
    by (simp add: generate_customer_profiles_table_def tape_random_def upt_conv_Cons
        numeral_2_eq_2)
  have st: "(state_after_row tape_random ^^ 1) (np_seed tape_random 7) = [30, 40, 60, 3]"
    by (simp add: state_after_row_def tape_random_def)
  have dr: "np_uniform tape_random 5 100 [60, 3] = (60, [3])"
    by (simp add: tape_random_def)
  note th = generate_customer_profiles_table_rows [where N = tape_random and n = 2
      and seed = 7 and ?s0.0 = "[1, 2, 3]" and ?s1.0 = "[]"
      and table = "[?r0, ?r1]" and s' = "[]"]
  from th have det: "generate_customer_profiles_table tape_random 2 7 [1, 2, 3]
       = generate_customer_profiles_table tape_random 2 7 []" by (rule conjunct1)
  note rest = th [THEN conjunct2, THEN mp, OF run]
  note rng = rest [THEN conjunct2, THEN conjunct2, THEN conjunct2, THEN mp,
      OF tape_random_uniform]
  then have all: "\<And>i. i < length [?r0, ?r1] \<Longrightarrow> row_in_range ([?r0, ?r1] ! i)" by blast
  have "row_in_range ([?r0, ?r1] ! Suc 0)" by (rule all) simp
  then have r1: "row_in_range ?r1" by simp
  from tape_random_uniform run det st dr r1 show ?thesis by blast
qed

section \<open>The loop over the days\<close>

lemma simulate_days_append:
  "simulate_days self N T st (xs @ ys) =
     (case simulate_days self N T st xs of
        None \<Rightarrow> None
      | Some st' \<Rightarrow> simulate_days self N T st' ys)"
  by (induction xs arbitrary: st) (auto split: option.splits)

lemma state_before_day_0:
  "state_before_day self R N T c w 0 = Some (initial_simulation R c w)"
  by (simp add: state_before_day_def)

lemma state_before_day_Suc:
  "state_before_day self R N T c w (Suc d) =
     (case state_before_day self R N T c w d of
        None \<Rightarrow> None
      | Some st \<Rightarrow> simulate_day self N T st (int d))"
  by (simp add: state_before_day_def simulate_days_append split: option.splits)

lemma state_before_day_reached:
  "state_before_day self R N T c w d' = Some st' \<Longrightarrow> d \<le> d'
     \<Longrightarrow> \<exists>st. state_before_day self R N T c w d = Some st"
proof (induction d' arbitrary: st')
  case 0
  then show ?case by simp
next
  case (Suc d')
  show ?case
  proof (cases "d = Suc d'")
    case True
    with Suc.prems show ?thesis by simp
  next
    case False
    with Suc.prems have le: "d \<le> d'" by simp
    from Suc.prems(1) obtain st0 where "state_before_day self R N T c w d' = Some st0"
      by (auto simp: state_before_day_Suc split: option.splits)
    from Suc.IH[OF this le] show ?thesis .
  qed
qed

lemma simulate_day_cases:
  assumes "simulate_day self N T st day = Some st'"
  obtains (fraud) nb_tx w where "fraud_branch self st"
      and "fraudulent_day self T st nb_tx day w = Some st'"
    | (genuine) nb_tx w where "\<not> fraud_branch self st"
      and "genuine_day self T st nb_tx day w = Some st'"
  using assms
  by (auto simp: simulate_day_def Let_def split: if_splits prod.splits)

lemma fraudulent_day_effect:
  assumes "fraudulent_day self T st nb_tx day w = Some st'"
  shows "days_from_compromission st' = Suc (days_from_compromission st)"
    and "profile st' = profile st"
  using assms by (auto simp: fraudulent_day_def split: option.splits)

lemma genuine_day_effect:
  assumes "genuine_day self T st nb_tx day w = Some st'"
  shows "days_from_compromission st' = days_from_compromission st"
    and "\<exists>c w' w''. compromise_user T (profile st) (compromission_probability self) w' = Some (c, w'')
           \<and> profile st' = (profile st)\<lparr>compromised := c\<rparr>"
    and "\<exists>txs w' w''. generate_genuine_transactions T (customer_transactions st) nb_tx (profile st) day w
             = Some (txs, w') \<and> customer_transactions st' = txs"
  using assms by (fastforce simp: genuine_day_def split: option.splits)+

lemma simulate_day_counter:
  assumes "simulate_day self N T st day = Some st'"
  shows "days_from_compromission st' =
           (if fraud_branch self st then Suc (days_from_compromission st)
            else days_from_compromission st)"
  using assms
  by (cases rule: simulate_day_cases) (simp_all add: fraudulent_day_effect genuine_day_effect)

lemma nb_fraud_days_Suc:
  "nb_fraud_days self R N T c w (Suc d) =
     (if fraud_branch_fires self R N T c w d then Suc (nb_fraud_days self R N T c w d)
      else nb_fraud_days self R N T c w d)"
  by (simp add: nb_fraud_days_def)

lemma counter_counts_fraud_days:
  "state_before_day self R N T c w d = Some st
     \<Longrightarrow> nb_fraud_days self R N T c w d = days_from_compromission st"
proof (induction d arbitrary: st)
  case 0
  then show ?case
    by (auto simp: nb_fraud_days_def state_before_day_0 initial_simulation_def)
next
  case (Suc d)
  from Suc.prems obtain st0 where st0: "state_before_day self R N T c w d = Some st0"
    and step: "simulate_day self N T st0 (int d) = Some st"
    by (auto simp: state_before_day_Suc split: option.splits)
  have fires: "fraud_branch_fires self R N T c w d = fraud_branch self st0"
    by (simp add: fraud_branch_fires_def st0)
  show ?case
    using Suc.IH[OF st0] simulate_day_counter[OF step] fires
    by (simp add: nb_fraud_days_Suc)
qed

lemma nb_fraud_days_bounded:
  assumes "0 \<le> max_days_from_compromission self"
  shows "int (nb_fraud_days self R N T c w d) \<le> max_days_from_compromission self"
proof (induction d)
  case 0
  with assms show ?case by (simp add: nb_fraud_days_def)
next
  case (Suc d)
  show ?case
  proof (cases "fraud_branch_fires self R N T c w d")
    case False
    with Suc.IH show ?thesis by (simp add: nb_fraud_days_Suc)
  next
    case True
    then obtain st where st: "state_before_day self R N T c w d = Some st"
      and fb: "fraud_branch self st"
      by (auto simp: fraud_branch_fires_def split: option.splits)
    from fb have "int (days_from_compromission st) < max_days_from_compromission self"
      by (simp add: fraud_branch_def)
    with counter_counts_fraud_days[OF st] True show ?thesis
      by (simp add: nb_fraud_days_Suc)
  qed
qed

lemma counter_monotone:
  "state_before_day self R N T c w d = Some st \<Longrightarrow> state_before_day self R N T c w d' = Some st'
     \<Longrightarrow> d \<le> d' \<Longrightarrow> days_from_compromission st \<le> days_from_compromission st'"
proof (induction d' arbitrary: st')
  case 0
  then show ?case by simp
next
  case (Suc d')
  show ?case
  proof (cases "d = Suc d'")
    case True
    with Suc.prems show ?thesis by simp
  next
    case False
    with Suc.prems have le: "d \<le> d'" by simp
    from Suc.prems(2) obtain st0 where st0: "state_before_day self R N T c w d' = Some st0"
      and step: "simulate_day self N T st0 (int d') = Some st'"
      by (auto simp: state_before_day_Suc split: option.splits)
    from Suc.IH[OF Suc.prems(1) st0 le] simulate_day_counter[OF step]
    show ?thesis by (simp split: if_splits)
  qed
qed

text \<open>
  C3. With a non-negative \<open>max_days_from_compromission\<close>, the number of days of a customer's
  run on which the fraudulent branch is taken is at most \<open>max_days_from_compromission\<close>; and
  once the counter \<open>days_from_compromission\<close> has reached that cap, no later day takes the
  fraudulent branch. This holds for any functions of \<open>transactions.py\<close>.
\<close>

theorem fraud_days_at_most_max:
  assumes "0 \<le> max_days_from_compromission self"
  shows "int (nb_fraud_days self R N T c w (nat (nb_days self))) \<le> max_days_from_compromission self
    \<and> (state_before_day self R N T c w d = Some st
         \<and> max_days_from_compromission self \<le> int (days_from_compromission st) \<and> d \<le> d'
       \<longrightarrow> \<not> fraud_branch_fires self R N T c w d')"
proof (intro conjI impI)
  show "int (nb_fraud_days self R N T c w (nat (nb_days self))) \<le> max_days_from_compromission self"
    by (rule nb_fraud_days_bounded[OF assms])
next
  assume a: "state_before_day self R N T c w d = Some st
         \<and> max_days_from_compromission self \<le> int (days_from_compromission st) \<and> d \<le> d'"
  show "\<not> fraud_branch_fires self R N T c w d'"
  proof
    assume "fraud_branch_fires self R N T c w d'"
    then obtain st' where st': "state_before_day self R N T c w d' = Some st'"
      and fb: "fraud_branch self st'"
      by (auto simp: fraud_branch_fires_def split: option.splits)
    from a st' have "days_from_compromission st \<le> days_from_compromission st'"
      by (auto intro: counter_monotone)
    with a fb show False by (simp add: fraud_branch_def)
  qed
qed


section \<open>The genuine days of the specification\<close>

lemma spec_genuine_rows:
  "spec_generate_genuine_transactions N R tod txs n c day w = Some (txs', w')
     \<Longrightarrow> \<exists>new. txs' = txs @ new
           \<and> (\<forall>row \<in> set new. tx_fraud row = (if compromised c = 1 then 1 else 0)
                 \<and> 0 \<le> tx_amount row \<and> np_round (tx_amount row) 2 = tx_amount row)"
proof (induction n arbitrary: txs w)
  case 0
  then show ?case by simp
next
  case (Suc n)
  obtain time_tx s1 where t: "tod (snd w) = (time_tx, s1)" by (cases "tod (snd w)")
  show ?case
  proof (cases "available_terminals c = []")
    case True
    with Suc.prems t
    have "spec_generate_genuine_transactions N R tod txs n c day (fst w, s1) = Some (txs', w')"
      by simp
    from Suc.IH[OF this] show ?thesis .
  next
    case False
    obtain terminal_id p1 where ch: "random_choice R (available_terminals c) (fst w) = (terminal_id, p1)"
      by (cases "random_choice R (available_terminals c) (fst w)")
    obtain a s2 where am: "np_normal N (mean_amount c) (std_amount c) s1 = (a, s2)"
      by (cases "np_normal N (mean_amount c) (std_amount c) s1")
    let ?row = "(time_tx, day, CUSTOMER_ID c, int terminal_id, np_round \<bar>a\<bar> 2,
                 if compromised c = 1 then 1 else 0 :: int)"
    from Suc.prems t False ch am
    have std: "\<not> std_amount c < 0"
      and rec: "spec_generate_genuine_transactions N R tod (txs @ [?row]) n c day (p1, s2)
                  = Some (txs', w')"
      by (auto simp: Let_def split: if_splits)
    from Suc.IH[OF rec] obtain new where new: "txs' = (txs @ [?row]) @ new"
      and ok: "\<forall>row \<in> set new. tx_fraud row = (if compromised c = 1 then 1 else 0)
                 \<and> 0 \<le> tx_amount row \<and> np_round (tx_amount row) 2 = tx_amount row"
      by blast
    have nonneg: "0 \<le> np_round \<bar>a\<bar> 2"
      by (simp add: np_round_def np_rint_def Let_def)
    have "\<forall>row \<in> set (?row # new). tx_fraud row = (if compromised c = 1 then 1 else 0)
                 \<and> 0 \<le> tx_amount row \<and> np_round (tx_amount row) 2 = tx_amount row"
      using ok nonneg by (simp add: tx_fraud_def tx_amount_def np_round_idem)
    moreover have "txs' = txs @ (?row # new)" using new by simp
    ultimately show ?thesis by blast
  qed
qed


section \<open>A run of three days\<close>

lemma customer_0_eq:
  "customer_0 = \<lparr>CUSTOMER_ID = 0, x_customer_id = 10, y_customer_id = 20, mean_amount = 50,
          std_amount = 25, mean_nb_tx_per_day = 2, compromised = 0, available_terminals = [0]\<rparr>"
  by (simp add: customer_0_def example_generator_def)

lemma example_run_day_0:
  "state_before_day example_generator_3 counter_random tape_random example_module customer_0
     (0, example_tape) (Suc 0)
   = Some \<lparr>days_from_compromission = 0,
           customer_transactions = [(30000, 0, 0, 0, 12.5, 0)],
           profile = customer_0\<lparr>compromised := 1\<rparr>,
           rng = (1, [0, 0, 40000, 20])\<rparr>"
  by (simp add: state_before_day_Suc state_before_day_0 initial_simulation_def simulate_day_def
      fraud_branch_def genuine_day_def example_module_def spec_transactions_module_def
      spec_compromise_user_def customer_0_eq tape_random_def counter_random_def
      tape_time_of_day_def example_tape_def py_int_def np_round_def np_rint_def Let_def
      example_generator_3_def example_generator_def)


lemma example_run_day_1:
  "state_before_day example_generator_3 counter_random tape_random example_module customer_0
     (0, example_tape) (Suc (Suc 0))
   = Some \<lparr>days_from_compromission = 1,
           customer_transactions = [(30000, 0, 0, 0, 12.5, 0), (0, 1, 0, 0, 1, 1)],
           profile = customer_0\<lparr>compromised := 1\<rparr>,
           rng = (1, [0, 40000, 20])\<rparr>"
  by (subst state_before_day_Suc, subst example_run_day_0)
    (simp add: simulate_day_def fraud_branch_def fraudulent_day_def example_module_def
      spec_transactions_module_def customer_0_eq tape_random_def Let_def
      example_generator_3_def example_generator_def)

lemma example_run_day_2:
  "state_before_day example_generator_3 counter_random tape_random example_module customer_0
     (0, example_tape) (Suc (Suc (Suc 0)))
   = Some \<lparr>days_from_compromission = 1,
           customer_transactions =
             [(30000, 0, 0, 0, 12.5, 0), (0, 1, 0, 0, 1, 1), (40000, 2, 0, 0, 20, 1)],
           profile = customer_0\<lparr>compromised := 1\<rparr>,
           rng = (2, [])\<rparr>"
  by (subst state_before_day_Suc, subst example_run_day_1)
    (simp add: simulate_day_def fraud_branch_def genuine_day_def example_module_def
      spec_transactions_module_def spec_compromise_user_def customer_0_eq tape_random_def
      counter_random_def tape_time_of_day_def py_int_def np_round_def np_rint_def Let_def
      example_generator_3_def example_generator_def)

theorem fraud_days_at_most_max_witness:
  "0 \<le> max_days_from_compromission example_generator_3
   \<and> fraud_branch_fires example_generator_3 counter_random tape_random example_module customer_0
        (0, example_tape) 1
   \<and> int (nb_fraud_days example_generator_3 counter_random tape_random example_module customer_0
        (0, example_tape) (nat (nb_days example_generator_3)))
      \<le> max_days_from_compromission example_generator_3
   \<and> \<not> fraud_branch_fires example_generator_3 counter_random tape_random example_module customer_0
        (0, example_tape) 2"
proof -
  have m: "0 \<le> max_days_from_compromission example_generator_3"
    by (simp add: example_generator_3_def example_generator_def)
  have f1: "fraud_branch_fires example_generator_3 counter_random tape_random example_module
      customer_0 (0, example_tape) 1"
    using example_run_day_0
    by (simp add: fraud_branch_fires_def fraud_branch_def example_generator_3_def
        example_generator_def)
  have cap: "max_days_from_compromission example_generator_3 \<le> int 1"
    by (simp add: example_generator_3_def example_generator_def)
  from fraud_days_at_most_max [OF m, where R = counter_random and N = tape_random
      and T = example_module and c = customer_0 and w = "(0, example_tape)" and d = 2 and d' = 2
      and st = "\<lparr>days_from_compromission = 1,
           customer_transactions = [(30000, 0, 0, 0, 12.5, 0), (0, 1, 0, 0, 1, 1)],
           profile = customer_0\<lparr>compromised := 1\<rparr>,
           rng = (1, [0, 40000, 20])\<rparr>"]
    example_run_day_1 cap m f1
  show ?thesis by (simp add: numeral_2_eq_2)
qed

section \<open>The compromised flag\<close>

lemma simulate_day_flag:
  assumes final: "\<And>p prob w c w'. compromised p = 1 \<Longrightarrow> compromise_user T p prob w = Some (c, w')
      \<Longrightarrow> c = 1"
    and step: "simulate_day self N T st day = Some st'"
    and flag: "compromised (profile st) = 1"
  shows "compromised (profile st') = 1"
  using step
proof (cases rule: simulate_day_cases)
  case (fraud nb_tx w)
  with flag show ?thesis by (simp add: fraudulent_day_effect)
next
  case (genuine nb_tx w)
  from genuine_day_effect(2)[OF genuine(2)] obtain c w' w''
    where cu: "compromise_user T (profile st) (compromission_probability self) w' = Some (c, w'')"
      and p: "profile st' = (profile st)\<lparr>compromised := c\<rparr>" by blast
  from final[OF flag cu] p show ?thesis by simp
qed

lemma flag_monotone:
  assumes final: "\<And>p prob w c w'. compromised p = 1 \<Longrightarrow> compromise_user T p prob w = Some (c, w')
      \<Longrightarrow> c = 1"
  shows "state_before_day self R N T c w d = Some st \<Longrightarrow> compromised (profile st) = 1
     \<Longrightarrow> state_before_day self R N T c w d' = Some st' \<Longrightarrow> d \<le> d'
     \<Longrightarrow> compromised (profile st') = 1"
proof (induction d' arbitrary: st')
  case 0
  then show ?case by simp
next
  case (Suc d')
  show ?case
  proof (cases "d = Suc d'")
    case True
    with Suc.prems show ?thesis by simp
  next
    case False
    with Suc.prems have le: "d \<le> d'" by simp
    from Suc.prems(3) obtain st0 where st0: "state_before_day self R N T c w d' = Some st0"
      and step: "simulate_day self N T st0 (int d') = Some st'"
      by (auto simp: state_before_day_Suc split: option.splits)
    from Suc.IH[OF Suc.prems(1,2) st0 le] have "compromised (profile st0) = 1" .
    from simulate_day_flag[OF final step this] show ?thesis .
  qed
qed

lemma spec_compromise_user_final:
  "compromised p = 1 \<Longrightarrow> compromise_user (spec_transactions_module N R tod F) p prob w = Some (c, w')
     \<Longrightarrow> c = 1"
  by (simp add: spec_transactions_module_def spec_compromise_user_def)

text \<open>
  C2. With \<open>compromise_user\<close> as the specification describes it, a customer whose flag
  \<open>compromised\<close> is 1 at the end of day \<open>d1\<close> has it 1 at the end of every later day \<open>d2\<close>
  of the run.
\<close>

theorem compromised_flag_monotone:
  assumes "state_before_day self R N (spec_transactions_module N R tod F) c w (Suc d1) = Some st1"
    and "compromised (profile st1) = 1"
    and "d1 < d2"
    and "state_before_day self R N (spec_transactions_module N R tod F) c w (Suc d2) = Some st2"
  shows "compromised (profile st2) = 1"
proof -
  from assms(3) have "Suc d1 \<le> Suc d2" by simp
  from flag_monotone[OF spec_compromise_user_final assms(1,2,4) this] show ?thesis .
qed

theorem compromised_flag_monotone_witness:
  "\<exists>st1 st2.
      state_before_day example_generator_3 counter_random tape_random example_module customer_0
        (0, example_tape) (Suc 0) = Some st1
      \<and> compromised (profile st1) = 1
      \<and> state_before_day example_generator_3 counter_random tape_random example_module customer_0
        (0, example_tape) (Suc 2) = Some st2
      \<and> compromised (profile st2) = 1"
proof -
  note d0 = example_run_day_0 [unfolded example_module_def]
  note d2 = example_run_day_2 [unfolded example_module_def, folded numeral_2_eq_2]
  have flag: "compromised (profile \<lparr>days_from_compromission = 0,
           customer_transactions = [(30000, 0, 0, 0, 12.5, 0)],
           profile = customer_0\<lparr>compromised := 1\<rparr>,
           rng = (1::nat, [0, 0, 40000, 20::real])\<rparr>) = 1" by simp
  have lt: "(0::nat) < 2" by simp
  from compromised_flag_monotone [OF d0 flag lt d2] d0 d2 flag
  show ?thesis unfolding example_module_def by blast
qed

section \<open>The first day\<close>

text \<open>
  C4. On day 0 the fraudulent branch is not taken, whatever the customer row and the
  functions of \<open>transactions.py\<close>: the list of transactions is still empty. The day is the
  genuine one, followed by the roll of \<open>compromise_user\<close>; and with the genuine transactions
  as the specification describes them, every transaction of day 0 of a customer that starts
  uncompromised is labelled non-fraud.
\<close>

theorem first_day_is_genuine:
  "\<not> fraud_branch_fires self R N T c w 0
   \<and> state_before_day self R N T c w (Suc 0) =
       (if mean_nb_tx_per_day c < 0 then None
        else genuine_day self T (initial_simulation R c w)
               (fst (np_poisson N (mean_nb_tx_per_day c) (snd w)) + 1) 0
               (random_seed R (CUSTOMER_ID c), snd (np_poisson N (mean_nb_tx_per_day c) (snd w))))
   \<and> (compromised c = 0
        \<and> state_before_day self R N (spec_transactions_module N R tod F) c w (Suc 0) = Some st
      \<longrightarrow> (\<forall>row \<in> set (customer_transactions st). tx_fraud row = 0))"
proof (intro conjI impI)
  show nf: "\<not> fraud_branch_fires self R N T c w 0"
    by (simp add: fraud_branch_fires_def state_before_day_0 fraud_branch_def
        initial_simulation_def)
  have init: "\<not> fraud_branch self (initial_simulation R c w :: ('a, 'b) simulation)" for self
    by (simp add: fraud_branch_def initial_simulation_def)
  show "state_before_day self R N T c w (Suc 0) =
       (if mean_nb_tx_per_day c < 0 then None
        else genuine_day self T (initial_simulation R c w)
               (fst (np_poisson N (mean_nb_tx_per_day c) (snd w)) + 1) 0
               (random_seed R (CUSTOMER_ID c), snd (np_poisson N (mean_nb_tx_per_day c) (snd w))))"
    by (simp add: state_before_day_Suc state_before_day_0 simulate_day_def init Let_def
        split: prod.splits)
      (simp add: initial_simulation_def)
next
  let ?T = "spec_transactions_module N R tod F"
  assume a: "compromised c = 0 \<and> state_before_day self R N ?T c w (Suc 0) = Some st"
  then have step: "simulate_day self N ?T (initial_simulation R c w) 0 = Some st"
    by (simp add: state_before_day_Suc state_before_day_0)
  have init: "\<not> fraud_branch self (initial_simulation R c w :: ('a, 'b) simulation)"
    by (simp add: fraud_branch_def initial_simulation_def)
  from step init obtain nb_tx w0 where
    g: "genuine_day self ?T (initial_simulation R c w) nb_tx 0 w0 = Some st"
    by (cases rule: simulate_day_cases) auto
  from genuine_day_effect(3)[OF g] obtain txs w'
    where gen: "generate_genuine_transactions ?T [] nb_tx c 0 w0 = Some (txs, w')"
      and txs: "customer_transactions st = txs"
    by (auto simp: initial_simulation_def)
  from gen have "spec_generate_genuine_transactions N R tod [] nb_tx c 0 w0 = Some (txs, w')"
    by (simp add: spec_transactions_module_def)
  from spec_genuine_rows[OF this] a txs
  show "\<forall>row \<in> set (customer_transactions st). tx_fraud row = 0" by auto
qed

theorem first_day_is_genuine_witness:
  "compromised customer_0 = 0
   \<and> state_before_day example_generator_3 counter_random tape_random example_module customer_0
        (0, example_tape) (Suc 0)
      = Some \<lparr>days_from_compromission = 0,
           customer_transactions = [(30000, 0, 0, 0, 12.5, 0)],
           profile = customer_0\<lparr>compromised := 1\<rparr>,
           rng = (1, [0, 0, 40000, 20])\<rparr>
   \<and> tx_fraud (30000, 0, 0, 0, 12.5, 0) = 0
   \<and> \<not> fraud_branch_fires example_generator_3 counter_random tape_random example_module
        customer_0 (0, example_tape) 0"
proof -
  note d0 = example_run_day_0 [unfolded example_module_def]
  have c0: "compromised customer_0 = 0" by (simp add: customer_0_eq)
  from first_day_is_genuine [where self = example_generator_3 and R = counter_random
      and N = tape_random and T = example_module and c = customer_0 and w = "(0, example_tape)"
      and tod = tape_time_of_day
      and st = "\<lparr>days_from_compromission = 0,
           customer_transactions = [(30000, 0, 0, 0, 12.5, 0)],
           profile = customer_0\<lparr>compromised := 1\<rparr>,
           rng = (1, [0, 0, 40000, 20])\<rparr>"]
    d0 c0 example_run_day_0
  show ?thesis by simp
qed


section \<open>Reproducibility of a customer's stream\<close>

lemma generate_transactions_table_python_state:
  "generate_transactions_table self R N T c (p, s) = generate_transactions_table self R N T c (p', s)"
  by (simp add: generate_transactions_table_def initial_simulation_def)

lemma customer_1_eq:
  "customer_1 = \<lparr>CUSTOMER_ID = 1, x_customer_id = 30, y_customer_id = 40, mean_amount = 60,
          std_amount = 30, mean_nb_tx_per_day = 3, compromised = 0, available_terminals = [0]\<rparr>"
  by (simp add: customer_1_def example_generator_def)

text \<open>
  C1. The stream of a customer depends on the state in which earlier simulations left
  numpy's generator: \<open>random.seed\<close> seeds Python's generator, and the number of
  transactions of a day is drawn from numpy's. In one and the same configuration, customer 1
  gets one transaction when it is simulated first, and two when it is simulated after
  customer 0.
\<close>

theorem customer_stream_depends_on_earlier_customers:
  "generate_transactions_table example_generator counter_random tape_random example_module
      customer_1 example_world
     = Some ([\<lparr>TX_DATETIME = 1522570800, TX_CUSTOMER_ID = 1, TX_TERMINAL_ID = 0,
               TX_AMOUNT = 12.5, TX_TIME_SECONDS = 30000, TX_FRAUD = 0\<rparr>],
             (2, [1, 40000, 20, 50000, 30, 0.5]))
   \<and> generate_transactions_table example_generator counter_random tape_random example_module
      customer_0 example_world
     = Some ([\<lparr>TX_DATETIME = 1522570800, TX_CUSTOMER_ID = 0, TX_TERMINAL_ID = 0,
               TX_AMOUNT = 12.5, TX_TIME_SECONDS = 30000, TX_FRAUD = 0\<rparr>],
             (1, [1, 40000, 20, 50000, 30, 0.5]))
   \<and> generate_transactions_table example_generator counter_random tape_random example_module
      customer_1 (1, [1, 40000, 20, 50000, 30, 0.5])
     = Some ([\<lparr>TX_DATETIME = 1522580800, TX_CUSTOMER_ID = 1, TX_TERMINAL_ID = 0,
               TX_AMOUNT = 20, TX_TIME_SECONDS = 40000, TX_FRAUD = 0\<rparr>,
              \<lparr>TX_DATETIME = 1522590800, TX_CUSTOMER_ID = 1, TX_TERMINAL_ID = 0,
               TX_AMOUNT = 30, TX_TIME_SECONDS = 50000, TX_FRAUD = 0\<rparr>],
             (3, []))"
proof -
  have days: "map int [0..<nat (nb_days example_generator)] = [0]"
    by (simp add: example_generator_def)
  note defs = generate_transactions_table_def days initial_simulation_def simulate_day_def
      fraud_branch_def genuine_day_def example_module_def spec_transactions_module_def
      spec_compromise_user_def tape_random_def counter_random_def
      tape_time_of_day_def py_int_def np_round_def np_rint_def Let_def transactions_frame_def
  have a: "generate_transactions_table example_generator counter_random tape_random example_module
      customer_1 example_world
     = Some ([\<lparr>TX_DATETIME = 1522570800, TX_CUSTOMER_ID = 1, TX_TERMINAL_ID = 0,
               TX_AMOUNT = 12.5, TX_TIME_SECONDS = 30000, TX_FRAUD = 0\<rparr>],
             (2, [1, 40000, 20, 50000, 30, 0.5]))"
    by (simp add: defs customer_1_eq example_world_def) (simp add: example_generator_def)
  have b: "generate_transactions_table example_generator counter_random tape_random example_module
      customer_0 example_world
     = Some ([\<lparr>TX_DATETIME = 1522570800, TX_CUSTOMER_ID = 0, TX_TERMINAL_ID = 0,
               TX_AMOUNT = 12.5, TX_TIME_SECONDS = 30000, TX_FRAUD = 0\<rparr>],
             (1, [1, 40000, 20, 50000, 30, 0.5]))"
    by (simp add: defs customer_0_eq example_world_def) (simp add: example_generator_def)
  have c: "generate_transactions_table example_generator counter_random tape_random example_module
      customer_1 (1, [1, 40000, 20, 50000, 30, 0.5])
     = Some ([\<lparr>TX_DATETIME = 1522580800, TX_CUSTOMER_ID = 1, TX_TERMINAL_ID = 0,
               TX_AMOUNT = 20, TX_TIME_SECONDS = 40000, TX_FRAUD = 0\<rparr>,
              \<lparr>TX_DATETIME = 1522590800, TX_CUSTOMER_ID = 1, TX_TERMINAL_ID = 0,
               TX_AMOUNT = 30, TX_TIME_SECONDS = 50000, TX_FRAUD = 0\<rparr>],
             (3, []))"
    by (simp add: defs customer_1_eq numeral_2_eq_2) (simp add: example_generator_def)
  from a b c show ?thesis by blast
qed

section \<open>Export and load\<close>

lemma load_unsupported_extension:
  "\<not> endswith filename ''.csv'' \<Longrightarrow> \<not> endswith filename ''.pkl''
     \<Longrightarrow> load self fs filename = (Some ValueError, self)"
  by (simp add: load_def read_table_def)

text \<open>
  C5. \<open>export\<close> with the format \<open>json\<close> returns without an error and without writing a
  file, where the format \<open>csv\<close> writes one; \<open>load\<close> of a file name that ends in \<open>.json\<close>
  raises ValueError and leaves the object as it was.
\<close>

theorem export_unsupported_format:
  "export (self\<lparr>transactions_df := Some df\<rparr>) fs filename ''json'' include_frauds = Inr fs
   \<and> export (self\<lparr>transactions_df := Some df\<rparr>) fs filename ''csv'' include_frauds
       = Inr (fs(filename @ ''.csv'' \<mapsto> CsvFile (pd_merge df (terminal_profiles_table self))))
   \<and> load self fs ''dataset.json'' = (Some ValueError, self)"
  by (simp add: export_def load_def read_table_def endswith_def Let_def)

section \<open>Amounts\<close>





end
